theory Spec2Isabelle
  imports Main
begin

section \<open>JavaScript strings and numbers used by the time tracker\<close>

text \<open>
  Strings are lists of characters. The decimal digits of a non-negative integer, without
  leading zeros; \<open>padStart\<close> prepends the pad character until the target length is
  reached.
\<close>

definition digit_char :: "nat \<Rightarrow> char" where
  "digit_char d = ''0123456789'' ! d"

fun toString_nat :: "nat \<Rightarrow> string" where
  "toString_nat n =
     (if n < 10 then [digit_char n] else toString_nat (n div 10) @ [digit_char (n mod 10)])"

declare toString_nat.simps [simp del]

definition padStart :: "nat \<Rightarrow> char \<Rightarrow> string \<Rightarrow> string" where
  "padStart targetLength c s = replicate (targetLength - length s) c @ s"

definition is_digit :: "char \<Rightarrow> bool" where
  "is_digit c = (48 \<le> (of_char c :: nat) \<and> (of_char c :: nat) \<le> 57)"

text \<open>Reading a digit string back as a number, most significant digit first.\<close>

definition decimal_value :: "string \<Rightarrow> nat" where
  "decimal_value s = foldl (\<lambda>acc c. 10 * acc + (of_char c - 48)) 0 s"

text \<open>\<open>String.prototype.includes\<close>: the needle occurs as a contiguous run.\<close>

definition startsWith :: "string \<Rightarrow> string \<Rightarrow> bool" where
  "startsWith s needle = (take (length needle) s = needle)"

fun str_includes :: "string \<Rightarrow> string \<Rightarrow> bool" where
  "str_includes [] needle = (needle = [])"
| "str_includes (c # cs) needle = (startsWith (c # cs) needle \<or> str_includes cs needle)"

text \<open>
  A character outside ASCII is held as its UTF-8 bytes, in the texts of the page as in the
  literals of the program, which are taken byte for byte from the source files.
  \<open>toLowerCase\<close> lowers the ASCII capitals and the capitals of Latin-1, \<open>U+00C0\<close> to
  \<open>U+00DE\<close> without the multiplication sign \<open>U+00D7\<close>: in UTF-8 the byte \<open>C3\<close>
  followed by a byte from \<open>80\<close> to \<open>9E\<close>, which becomes \<open>C3\<close> and that byte plus
  \<open>20\<close>. Capitals further up in Unicode are left as they are. \<open>trim\<close> removes the
  ASCII white space.
\<close>

definition lower_char :: "char \<Rightarrow> char" where
  "lower_char c =
     (let k = (of_char c :: nat) in if 65 \<le> k \<and> k \<le> 90 then char_of (k + 32) else c)"

definition is_latin1_capital :: "char \<Rightarrow> bool" where
  "is_latin1_capital d =
     (let k = (of_char d :: nat) in 0x80 \<le> k \<and> k \<le> 0x9E \<and> k \<noteq> 0x97)"

fun toLowerCase :: "string \<Rightarrow> string" where
  "toLowerCase [] = []"
| "toLowerCase [c] = [lower_char c]"
| "toLowerCase (c # d # cs) =
     (if c = CHR 0xC3 \<and> is_latin1_capital d
      then c # char_of ((of_char d :: nat) + 32) # toLowerCase cs
      else lower_char c # toLowerCase (d # cs))"

definition is_space :: "char \<Rightarrow> bool" where
  "is_space c = ((of_char c :: nat) \<in> {9, 10, 11, 12, 13, 32})"

definition trim :: "string \<Rightarrow> string" where
  "trim s = rev (dropWhile is_space (rev (dropWhile is_space s)))"

text \<open>
  \<open>Array.prototype.join\<close> with a separator.
\<close>

fun join :: "string \<Rightarrow> string list \<Rightarrow> string" where
  "join sep [] = []"
| "join sep [x] = x"
| "join sep (x # y # ys) = x @ sep @ join sep (y # ys)"

text \<open>
  Numbers are IEEE 754 doubles, with 53 significant bits. A non-negative integer is held
  exactly when cutting it to the 53 bits from its leading one loses nothing; every integer
  below \<open>2^53\<close> is.
\<close>

fun bitlen :: "nat \<Rightarrow> nat" where
  "bitlen n = (if n = 0 then 0 else Suc (bitlen (n div 2)))"

declare bitlen.simps [simp del]

definition is_double :: "nat \<Rightarrow> bool" where
  "is_double n = (n mod 2 ^ (bitlen n - 53) = 0)"

text \<open>The integer nearest to \<open>a / b\<close>, a tie going to the even one.\<close>

definition round_half_even :: "nat \<Rightarrow> nat \<Rightarrow> nat" where
  "round_half_even a b =
     (let q = a div b; r = a mod b
      in if 2 * r < b \<or> (2 * r = b \<and> even q) then q else q + 1)"

text \<open>
  \<open>Math.floor(a / b)\<close> for two positive integers held as doubles. The division rounds
  the quotient to 53 significant bits: with \<open>e\<close> the exponent that brings
  \<open>a / b / 2^e\<close> into the range from \<open>2^52\<close> to \<open>2^53\<close>, the double \<open>a / b\<close> is the
  integer nearest to \<open>a / b / 2^e\<close>, times \<open>2^e\<close>. \<open>Math.floor\<close> takes the integer part
  of that double.
\<close>

definition quotient_exponent :: "nat \<Rightarrow> nat \<Rightarrow> int" where
  "quotient_exponent a b =
     (let e = int (bitlen a) - int (bitlen b) - 53
      in if a * 2 ^ nat (- e) < b * 2 ^ nat e * 2 ^ 53 then e else e + 1)"

definition floor_quotient :: "nat \<Rightarrow> nat \<Rightarrow> nat" where
  "floor_quotient a b =
     (if a = 0 then 0
      else let e = quotient_exponent a b;
               significand = round_half_even (a * 2 ^ nat (- e)) (b * 2 ^ nat e)
           in (significand * 2 ^ nat e) div 2 ^ nat (- e))"

text \<open>
  \<open>Number.prototype.toString\<close> of a non-negative integer: its decimal digits below
  \<open>10^21\<close>, and from there on exponent notation, which is left to the runtime
  (\<open>exponential\<close>).
\<close>

definition numberToString :: "(nat \<Rightarrow> string) \<Rightarrow> nat \<Rightarrow> string" where
  "numberToString exponential n = (if n < 10 ^ 21 then toString_nat n else exponential n)"

section \<open>The page: a DOM tree, element handles, and the history of actions\<close>

text \<open>
  A document is a tree of text nodes and elements. \<open>tagName\<close> holds the tag as the DOM
  reports it for HTML elements (upper case: \<open>TR\<close>, \<open>SPAN\<close>). An element handle is the
  position of the element: the child indices from the element up to the root, the
  element's own index first, so that the tail of a handle is \<open>parentElement\<close>.
\<close>

datatype node =
    TextNode string
  | Element (tagName: string) (attributes: "(string \<times> string) list") (childNodes: "node list")

type_synonym handle = "nat list"

fun descend :: "node \<Rightarrow> nat list \<Rightarrow> node option" where
  "descend (TextNode s) p = None"
| "descend (Element t a cs) [] = Some (Element t a cs)"
| "descend (Element t a cs) (i # p) = (if i < length cs then descend (cs ! i) p else None)"

definition node_at :: "node \<Rightarrow> handle \<Rightarrow> node option" where
  "node_at root h = descend root (rev h)"

fun textContent :: "node \<Rightarrow> string" where
  "textContent (TextNode s) = s"
| "textContent (Element t a cs) = concat (map textContent cs)"

text \<open>The elements strictly below a node, in document order, each with its handle.\<close>

fun elements_below :: "handle \<Rightarrow> node \<Rightarrow> (handle \<times> node) list"
  and elements_in :: "handle \<Rightarrow> nat \<Rightarrow> node list \<Rightarrow> (handle \<times> node) list" where
  "elements_below h (TextNode s) = []"
| "elements_below h (Element t a cs) = elements_in h 0 cs"
| "elements_in h i [] = []"
| "elements_in h i (c # cs) =
     (case c of TextNode s \<Rightarrow> [] | Element t a ds \<Rightarrow> [(i # h, c)])
       @ elements_below (i # h) c @ elements_in h (Suc i) cs"

definition getAttribute :: "node \<Rightarrow> string \<Rightarrow> string option" where
  "getAttribute n name = (case n of TextNode s \<Rightarrow> None | Element t a cs \<Rightarrow> map_of a name)"

text \<open>\<open>querySelectorAll('span')\<close> and \<open>querySelector('[name="value"]')\<close> on an element.\<close>

definition querySelectorAll_tag :: "string \<Rightarrow> handle \<Rightarrow> node \<Rightarrow> (handle \<times> node) list" where
  "querySelectorAll_tag t h n =
     filter (\<lambda>(p, e). (case e of TextNode s \<Rightarrow> False | Element t' a cs \<Rightarrow> t' = t)) (elements_below h n)"

definition querySelector_attr :: "string \<Rightarrow> string \<Rightarrow> handle \<Rightarrow> node \<Rightarrow> handle option" where
  "querySelector_attr name v h n =
     map_option fst (find (\<lambda>(p, e). getAttribute e name = Some v) (elements_below h n))"

text \<open>
  What the program does to the browser, most recent action first. The page is a function
  of this history: every observation below is asked of the history so far.
\<close>

datatype action =
    Launch
  | NewContext
  | NewPage
  | Goto string
  | WaitForLoadState string
  | WaitForTimeout nat
  | WaitedForSelector string nat
  | Click handle
  | ClickSelector string
  | Fill handle string
  | TypeText handle string
  | Press handle string
  | KeyboardPress string
  | Screenshot
  | ClosePage
  | CloseContext
  | CloseBrowser

datatype error = Error (message: string)

datatype call =
    Perform action
  | QueryOne string
  | QueryAll string
  | WaitForSelector string nat
  | GetTextContent handle
  | IsVisible handle
  | Evaluate string "handle option"
  | JsonValue "handle option"
  | Title

text \<open>
  The browser and the site, as Playwright shows them: the document, the elements each
  selector matches (in the order \<open>$$\<close> returns them; \<open>$\<close> returns the first), the element
  \<open>waitForSelector\<close> sees appear within its timeout, visibility, URL and title, and for
  every call whether it throws instead of returning.

  A handle the program keeps while it acts on the page holds the element itself, not its
  place in the document: \<open>held\<close> tells what the element a handle was obtained for has
  become after the history, wherever it stands by then, also when the page has taken it
  out of the document.
\<close>

record env =
  dom :: "action list \<Rightarrow> node"
  held :: "action list \<Rightarrow> handle \<Rightarrow> node"
  query_all :: "action list \<Rightarrow> string \<Rightarrow> handle list"
  appears :: "action list \<Rightarrow> string \<Rightarrow> nat \<Rightarrow> handle option"
  visible :: "action list \<Rightarrow> handle \<Rightarrow> bool"
  url :: "action list \<Rightarrow> string"
  title :: "action list \<Rightarrow> string"
  throws :: "action list \<Rightarrow> call \<Rightarrow> error option"

subsection \<open>Awaited calls: a result or a thrown error, and the history after\<close>

type_synonym 'a io = "action list \<Rightarrow> (error + 'a) \<times> action list"

definition io_return :: "'a \<Rightarrow> 'a io" where
  "io_return x = (\<lambda>tr. (Inr x, tr))"

definition io_throw :: "error \<Rightarrow> 'a io" where
  "io_throw e = (\<lambda>tr. (Inl e, tr))"

definition io_bind :: "'a io \<Rightarrow> ('a \<Rightarrow> 'b io) \<Rightarrow> 'b io" where
  "io_bind m f = (\<lambda>tr. case m tr of (Inl e, tr') \<Rightarrow> (Inl e, tr') | (Inr x, tr') \<Rightarrow> f x tr')"

definition io_then :: "'a io \<Rightarrow> 'b io \<Rightarrow> 'b io" where
  "io_then m k = io_bind m (\<lambda>_. k)"

text \<open>\<open>try { m } catch (e) { h e }\<close>: the handler runs after whatever \<open>m\<close> had done.\<close>

definition io_catch :: "'a io \<Rightarrow> (error \<Rightarrow> 'a io) \<Rightarrow> 'a io" where
  "io_catch m h = (\<lambda>tr. case m tr of (Inl e, tr') \<Rightarrow> h e tr' | (Inr x, tr') \<Rightarrow> (Inr x, tr'))"

definition io_when :: "bool \<Rightarrow> unit io \<Rightarrow> unit io" where
  "io_when b m = (if b then m else io_return ())"

text \<open>A computation that only observes the page leaves the history as it found it.\<close>

definition readonly :: "'a io \<Rightarrow> bool" where
  "readonly m = (\<forall>tr. snd (m tr) = tr)"

definition perform :: "env \<Rightarrow> action \<Rightarrow> unit io" where
  "perform env a =
     (\<lambda>tr. case throws env tr (Perform a) of Some e \<Rightarrow> (Inl e, tr) | None \<Rightarrow> (Inr (), a # tr))"

definition observe :: "env \<Rightarrow> call \<Rightarrow> (action list \<Rightarrow> 'a) \<Rightarrow> 'a io" where
  "observe env c f =
     (\<lambda>tr. case throws env tr c of Some e \<Rightarrow> (Inl e, tr) | None \<Rightarrow> (Inr (f tr), tr))"

definition detached :: error where
  "detached = Error ''Element is not attached to the DOM''"

text \<open>
  A call on a handle that the page has just given out, with nothing done to the page
  since: the element is the one at the handle's position in the document. Should the page
  have answered with a position that holds no element, the call throws.
\<close>

definition on_element :: "env \<Rightarrow> call \<Rightarrow> handle \<Rightarrow> (node \<Rightarrow> handle \<Rightarrow> 'a) \<Rightarrow> 'a io" where
  "on_element env c h f =
     (\<lambda>tr. case throws env tr c of
        Some e \<Rightarrow> (Inl e, tr)
      | None \<Rightarrow> (case node_at (dom env tr) h of
                   None \<Rightarrow> (Inl detached, tr)
                 | Some n \<Rightarrow> (Inr (f (dom env tr) h), tr)))"

text \<open>
  \<open>handle.evaluate(fn)\<close> and \<open>handle.evaluateHandle(fn)\<close>: the function runs in the
  page on the document and the handle's target, which is \<open>None\<close> for a handle to
  \<open>null\<close>.
\<close>

definition evaluate :: "env \<Rightarrow> string \<Rightarrow> handle option \<Rightarrow> (node \<Rightarrow> handle option \<Rightarrow> 'a) \<Rightarrow> 'a io" where
  "evaluate env label target f =
     (case target of
        None \<Rightarrow> observe env (Evaluate label None) (\<lambda>tr. f (dom env tr) None)
      | Some h \<Rightarrow> on_element env (Evaluate label (Some h)) h (\<lambda>root p. f root (Some p)))"

text \<open>
  \<open>handle.evaluate(fn)\<close> on a handle obtained earlier in the run: the function runs on
  the element the handle holds, as it is by now.
\<close>

definition evaluate_held :: "env \<Rightarrow> string \<Rightarrow> handle option \<Rightarrow> (node option \<Rightarrow> 'a) \<Rightarrow> 'a io" where
  "evaluate_held env label target f =
     observe env (Evaluate label target) (\<lambda>tr. f (map_option (held env tr) target))"

definition page_url :: "env \<Rightarrow> string io" where
  "page_url env = (\<lambda>tr. (Inr (url env tr), tr))"

definition page_title :: "env \<Rightarrow> string io" where
  "page_title env = observe env Title (title env)"

definition queryAll :: "env \<Rightarrow> string \<Rightarrow> handle list io" where
  "queryAll env selector = observe env (QueryAll selector) (\<lambda>tr. query_all env tr selector)"

definition queryOne :: "env \<Rightarrow> string \<Rightarrow> handle option io" where
  "queryOne env selector =
     observe env (QueryOne selector)
       (\<lambda>tr. case query_all env tr selector of [] \<Rightarrow> None | h # hs \<Rightarrow> Some h)"

text \<open>
  \<open>page.waitForSelector(selector, {timeout})\<close> resolves to the element once it is
  visible and throws when the timeout passes first; either way time has passed.
\<close>

definition waitForSelector :: "env \<Rightarrow> string \<Rightarrow> nat \<Rightarrow> handle io" where
  "waitForSelector env selector timeout =
     (\<lambda>tr. case throws env tr (WaitForSelector selector timeout) of
        Some e \<Rightarrow> (Inl e, tr)
      | None \<Rightarrow> (case appears env tr selector timeout of
                   None \<Rightarrow> (Inl (Error ''Timeout exceeded while waiting for selector''),
                              WaitedForSelector selector timeout # tr)
                 | Some h \<Rightarrow> (Inr h, WaitedForSelector selector timeout # tr)))"

definition getTextContent :: "env \<Rightarrow> handle \<Rightarrow> string io" where
  "getTextContent env h =
     on_element env (GetTextContent h) h (\<lambda>root p. textContent (the (node_at root p)))"

definition isVisible :: "env \<Rightarrow> handle \<Rightarrow> bool io" where
  "isVisible env h = observe env (IsVisible h) (\<lambda>tr. visible env tr h)"

text \<open>
  \<open>jsonValue()\<close> of a handle: \<open>null\<close> for a handle to \<open>null\<close>, a non-empty
  representation (truthy) for an element.
\<close>

definition jsonValue_truthy :: "env \<Rightarrow> handle option \<Rightarrow> bool io" where
  "jsonValue_truthy env target = observe env (JsonValue target) (\<lambda>tr. target \<noteq> None)"

definition waitForTimeout :: "env \<Rightarrow> nat \<Rightarrow> unit io" where
  "waitForTimeout env ms = perform env (WaitForTimeout ms)"

definition click :: "env \<Rightarrow> handle \<Rightarrow> unit io" where
  "click env h = perform env (Click h)"

definition fill :: "env \<Rightarrow> handle \<Rightarrow> string \<Rightarrow> unit io" where
  "fill env h v = perform env (Fill h v)"


section \<open>config.ts\<close>

text \<open>
  The configuration read from the environment. A number that \<open>parseInt\<close> could not
  read (NaN) is \<open>None\<close>.
\<close>

record config =
  factorial_email :: string
  factorial_password :: string
  factorial_baseUrl :: string
  workHours_defaultStartTime :: string
  workHours_defaultEndTime :: string
  workHours_defaultBreakMinutes :: "int option"

definition validateConfig :: "config \<Rightarrow> unit io" where
  "validateConfig cfg =
     (let errors = (if factorial_email cfg = [] then [''FACTORIAL_EMAIL is required''] else [])
                 @ (if factorial_password cfg = [] then [''FACTORIAL_PASSWORD is required''] else [])
      in if length errors > 0
         then io_throw (Error (''Configuration errors:'' @ [CHR 0x0A] @ join [CHR 0x0A] errors))
         else io_return ())"

section \<open>Loops over a list of selectors\<close>

text \<open>
  \<open>for (const x of xs) { try { body } catch (e) { } }\<close> where \<open>body\<close> either breaks
  out of the loop (\<open>True\<close>) or falls through to the next element; an error thrown by
  \<open>body\<close> is swallowed and the loop goes on. The result tells whether the loop broke.
\<close>

fun for_each_until :: "('a \<Rightarrow> bool io) \<Rightarrow> 'a list \<Rightarrow> bool io" where
  "for_each_until body [] = io_return False"
| "for_each_until body (x # xs) =
     io_bind (io_catch (body x) (\<lambda>e. io_return False))
       (\<lambda>broke. if broke then io_return True else for_each_until body xs)"

text \<open>
  The same loop when the body assigns the element it found to a variable that starts as
  \<open>null\<close> and breaks once it is set.
\<close>

fun for_first :: "('a \<Rightarrow> 'b option io) \<Rightarrow> 'a list \<Rightarrow> 'b option io" where
  "for_first body [] = io_return None"
| "for_first body (x # xs) =
     io_bind (io_catch (body x) (\<lambda>e. io_return None))
       (\<lambda>found. case found of Some y \<Rightarrow> io_return (Some y) | None \<Rightarrow> for_first body xs)"

section \<open>factorial-automation.ts\<close>

text \<open>The three fields of \<open>FactorialAutomation\<close>: whether each is set (not \<open>null\<close>).\<close>

record automation =
  has_browser :: bool
  has_context :: bool
  has_page :: bool

definition new_automation :: automation where
  "new_automation = \<lparr>has_browser = False, has_context = False, has_page = False\<rparr>"

definition initialize :: "env \<Rightarrow> automation \<Rightarrow> automation io" where
  "initialize env a =
     io_catch
       (io_then (perform env Launch)
       (io_then (perform env NewContext)
       (io_then (perform env NewPage)
         (io_return (a\<lparr>has_browser := True, has_context := True, has_page := True\<rparr>)))))
       (\<lambda>error. io_throw error)"

definition loggedInIndicators :: "string list" where
  \<open>loggedInIndicators =
     [''.dashboard'', ''.user-menu'', ''[data-testid="user-avatar"]'', ''.navigation-menu'',
      ''nav[role="navigation"]'']\<close>

definition isLoggedIn :: "env \<Rightarrow> automation \<Rightarrow> bool io" where
  "isLoggedIn env a =
     (if \<not> has_page a then io_return False
      else io_catch
        (io_bind
           (for_each_until
              (\<lambda>selector. io_bind (queryOne env selector) (\<lambda>element. io_return (element \<noteq> None)))
              loggedInIndicators)
           (\<lambda>found.
              if found then io_return True
              else io_bind (page_url env) (\<lambda>currentUrl.
                if str_includes currentUrl ''/login'' \<or> str_includes currentUrl ''/signin''
                then io_return False
                else if str_includes currentUrl ''factorialhr.com''
                        \<and> \<not> str_includes currentUrl ''/login''
                then io_return True
                else io_return False)))
        (\<lambda>error. io_return False))"

text \<open>
  The navigation retry loop of \<open>login\<close>. The argument counts the attempts still
  allowed, \<open>maxAttempts - attempts\<close>, so the last attempt is the one that leaves none.
\<close>

definition maxAttempts :: nat where
  "maxAttempts = 3"

fun navigateToLogin :: "env \<Rightarrow> config \<Rightarrow> nat \<Rightarrow> unit io" where
  "navigateToLogin env cfg 0 = io_return ()"
| "navigateToLogin env cfg (Suc remaining) =
     io_bind
       (io_catch
          (io_then (perform env (Goto (factorial_baseUrl cfg)))
          (io_then (perform env (WaitForLoadState ''networkidle''))
            (io_return True)))
          (\<lambda>navError.
             if remaining = 0
             then io_throw (Error (''Failed to navigate to Factorial after '' @ toString_nat maxAttempts
                    @ '' attempts. Network issue or site unavailable. Error: '' @ message navError))
             else io_then (waitForTimeout env 5000) (io_return False)))
       (\<lambda>navigationSuccess.
          if navigationSuccess then io_return () else navigateToLogin env cfg remaining)"

definition emailSelectors :: "string list" where
  \<open>emailSelectors =
     [''input[type="email"]'', ''input[name="email"]'', ''input[placeholder*="email" i]'',
      ''#email'', ''.email-input'']\<close>

definition passwordSelectors :: "string list" where
  \<open>passwordSelectors =
     [''input[type="password"]'', ''input[name="password"]'', ''#password'', ''.password-input'']\<close>

definition buttonSelectors :: "string list" where
  \<open>buttonSelectors =
     [''button[type="submit"]'', ''input[type="submit"]'', ''button:has-text("Sign in")'',
      ''button:has-text("Login")'', ''button:has-text("Log in")'', ''.login-button'',
      ''.submit-button'']\<close>

definition errorSelectors :: "string list" where
  \<open>errorSelectors =
     [''.error-message'', ''.alert-error'', ''[data-testid="error"]'', ''.login-error'']\<close>

text \<open>
  The loop of \<open>login\<close> over \<open>errorSelectors\<close>: the \<open>throw\<close> that carries the text of the
  error element stands inside the \<open>try\<close> whose \<open>catch\<close> goes on to the next selector.
\<close>

definition reportLoginError :: "env \<Rightarrow> string \<Rightarrow> unit io" where
  "reportLoginError env selector =
     io_bind (queryOne env selector) (\<lambda>errorElement.
       case errorElement of
         Some el \<Rightarrow> io_bind (getTextContent env el) (\<lambda>errorText.
                      io_throw (Error (''Login failed: '' @ errorText)))
       | None \<Rightarrow> io_return ())"

fun checkLoginErrors :: "env \<Rightarrow> string list \<Rightarrow> unit io" where
  "checkLoginErrors env [] = io_return ()"
| "checkLoginErrors env (selector # rest) =
     io_then (io_catch (reportLoginError env selector) (\<lambda>e. io_return ()))
       (checkLoginErrors env rest)"

text \<open>
  The three lookups of \<open>login\<close>. Each tries its selectors in order with
  \<open>waitForSelector\<close>. Without an email input, \<open>login\<close> returns \<open>true\<close> when
  \<open>isLoggedIn()\<close> holds (\<open>None\<close> here) and throws otherwise; without a password
  input it throws; without a button it presses Enter in the password input.
\<close>

definition waitForAny :: "env \<Rightarrow> nat \<Rightarrow> string list \<Rightarrow> handle option io" where
  "waitForAny env timeout selectors =
     for_first (\<lambda>selector. io_bind (waitForSelector env selector timeout) (\<lambda>h. io_return (Some h)))
       selectors"

definition findEmailInput :: "env \<Rightarrow> automation \<Rightarrow> handle option io" where
  "findEmailInput env a =
     io_bind (waitForAny env 5000 emailSelectors) (\<lambda>emailInput.
       case emailInput of
         Some e \<Rightarrow> io_return (Some e)
       | None \<Rightarrow> io_bind (isLoggedIn env a) (\<lambda>loggedIn.
           if loggedIn then io_return None
           else io_throw (Error
             ''Could not find email input field. The page structure might have changed.'')))"

definition findPasswordInput :: "env \<Rightarrow> handle io" where
  "findPasswordInput env =
     io_bind (waitForAny env 2000 passwordSelectors) (\<lambda>passwordInput.
       case passwordInput of
         None \<Rightarrow> io_throw (Error ''Could not find password input field'')
       | Some p \<Rightarrow> io_return p)"

definition submitLogin :: "env \<Rightarrow> handle \<Rightarrow> unit io" where
  "submitLogin env passwordInput =
     io_bind (waitForAny env 2000 buttonSelectors) (\<lambda>loginButton.
       case loginButton of
         None \<Rightarrow> perform env (Press passwordInput ''Enter'')
       | Some b \<Rightarrow> click env b)"

definition login :: "env \<Rightarrow> config \<Rightarrow> automation \<Rightarrow> bool io" where
  "login env cfg a =
     (if \<not> has_page a then io_throw (Error ''Browser not initialized. Call initialize() first.'')
      else io_catch
        (io_then (navigateToLogin env cfg maxAttempts)
        (io_bind (findEmailInput env a) (\<lambda>emailInput.
           case emailInput of
             None \<Rightarrow> io_return True
           | Some emailInput \<Rightarrow>
               io_then (fill env emailInput (factorial_email cfg))
               (io_bind (findPasswordInput env) (\<lambda>passwordInput.
                io_then (fill env passwordInput (factorial_password cfg))
               (io_then (submitLogin env passwordInput)
               (io_then (perform env (WaitForLoadState ''networkidle''))
               (io_bind (isLoggedIn env a) (\<lambda>loginSuccess.
                  if loginSuccess then io_return True
                  else io_then (checkLoginErrors env errorSelectors)
                         (io_throw (Error ''Login failed - please check credentials'')))))))))))
        (\<lambda>error. io_throw error))"

definition timeTrackingSelectors :: "string list" where
  \<open>timeTrackingSelectors =
     [''a[href*="time"]'', ''a[href*="attendance"]'', ''nav a:has-text("Time")'',
      ''nav a:has-text("Attendance")'', ''[data-testid="time-tracking"]'', ''.menu-time'',
      ''.sidebar a:has-text("Time")'']\<close>

definition timeUrls :: "string list" where
  "timeUrls = [''/attendance/clock-in'', ''/attendance/'', ''/attendance'', ''/time'', ''/time-tracking'']"

definition navigateToTimeTracking :: "env \<Rightarrow> config \<Rightarrow> automation \<Rightarrow> unit io" where
  "navigateToTimeTracking env cfg a =
     (if \<not> has_page a then io_throw (Error ''Browser not initialized'')
      else io_catch
        (io_bind
           (for_each_until
              (\<lambda>selector. io_bind (queryOne env selector) (\<lambda>element.
                 case element of
                   Some el \<Rightarrow> io_then (click env el)
                              (io_then (perform env (WaitForLoadState ''networkidle'')) (io_return True))
                 | None \<Rightarrow> io_return False))
              timeTrackingSelectors)
           (\<lambda>found.
              io_bind
                (if \<not> found
                 then for_each_until
                        (\<lambda>u. io_then (perform env (Goto (factorial_baseUrl cfg @ u)))
                             (io_then (perform env (WaitForLoadState ''load''))
                             (io_then (waitForTimeout env 2000)
                             (io_bind (page_title env) (\<lambda>pageTitle.
                              io_bind (page_url env) (\<lambda>currentUrl.
                                io_return (\<not> str_includes (toLowerCase pageTitle) ''error''
                                  \<and> \<not> str_includes (toLowerCase pageTitle) ''404''
                                  \<and> \<not> str_includes currentUrl ''/login'')))))))
                        timeUrls
                 else io_return found)
                (\<lambda>found.
                   if \<not> found
                   then io_throw (Error
                     ''Could not navigate to time tracking section. Please check the Factorial interface.'')
                   else io_return ())))
        (\<lambda>error. io_throw error))"

text \<open>\<open>cleanup\<close> closes what is open and swallows any error.\<close>

definition cleanup :: "env \<Rightarrow> automation \<Rightarrow> unit io" where
  "cleanup env a =
     io_catch
       (io_then (io_when (has_page a) (perform env ClosePage))
       (io_then (io_when (has_context a) (perform env CloseContext))
         (io_when (has_browser a) (perform env CloseBrowser))))
       (\<lambda>error. io_return ())"


section \<open>time-tracker.ts\<close>

record workEntry =
  date :: string
  startTime :: string
  endTime :: string
  breakMinutes :: "int option"
  description :: "string option"

text \<open>
  The block that opens both \<open>logWorkHours\<close> and \<open>logAnyMissingHours\<close>: close a popup
  by its close button, or click the body; any error is swallowed.
\<close>

definition dismissPopups :: "env \<Rightarrow> unit io" where
  \<open>dismissPopups env =
     io_catch
       (io_bind (queryOne env ''div[role="button"][aria-label="Close"]'') (\<lambda>closeButton.
          case closeButton of
            Some b \<Rightarrow> io_then (click env b) (waitForTimeout env 1000)
          | None \<Rightarrow> io_then (perform env (ClickSelector ''body'')) (waitForTimeout env 1000)))
       (\<lambda>e. io_return ())\<close>

subsection \<open>handleFactorialTimeEntry, step 1: the row with missing hours\<close>

definition missingHoursSelectors :: "string list" where
  \<open>missingHoursSelectors =
     [''span[title="-8h"]'', ''span:has-text("-8h")'', ''span._1jh4l1p2:has-text("-8h")'',
      ''[title="-8h"]'', ''span[title*="-"]'', ''span:has-text("-")'']\<close>

text \<open>
  The test the program applies to a text to take it for a missing-hours marker:
  non-empty, with a \<open>-\<close> and an \<open>h\<close> somewhere in it.
\<close>

definition isMissingHoursText :: "string \<Rightarrow> bool" where
  "isMissingHoursText text = (text \<noteq> [] \<and> str_includes text ''-'' \<and> str_includes text ''h'')"

text \<open>
  The function evaluated on a matched element: walk up \<open>parentElement\<close> until a \<open>TR\<close>;
  \<open>null\<close> when the root is passed.
\<close>

fun closestRow :: "node \<Rightarrow> handle \<Rightarrow> handle option" where
  "closestRow root [] = None"
| "closestRow root (i # parent) =
     (case node_at root parent of
        Some (Element t a cs) \<Rightarrow> if t \<noteq> ''TR'' then closestRow root parent else Some parent
      | _ \<Rightarrow> None)"

definition findToggle :: "node \<Rightarrow> handle option \<Rightarrow> handle option" where
  "findToggle root row =
     (case row of
        None \<Rightarrow> None
      | Some r \<Rightarrow> (case node_at root r of
                    None \<Rightarrow> None
                  | Some n \<Rightarrow> querySelector_attr ''data-intercom-target'' ''attendance-row-toggle'' r n))"

definition hasToggle :: "node \<Rightarrow> handle option \<Rightarrow> bool" where
  "hasToggle root row = (findToggle root row \<noteq> None)"

text \<open>
  The quick validation of a candidate row: it has the toggle button (it is not a header),
  and the handle holds an element. Any error here counts as not validated.
\<close>

definition validateRow :: "env \<Rightarrow> handle option \<Rightarrow> bool io" where
  "validateRow env targetRow =
     io_catch
       (io_bind (evaluate env ''hasToggle'' targetRow hasToggle) (\<lambda>toggle.
          if \<not> toggle then io_return False
          else io_bind (jsonValue_truthy env targetRow) (\<lambda>rowElement.
                 if \<not> rowElement then io_return False else io_return True)))
       (\<lambda>evalError. io_return False)"

text \<open>
  The loop over the elements one selector matched. An error of \<open>textContent\<close> or of the
  walk to the row leaves the loop (the selector's \<open>catch\<close> takes it); a row that is not
  validated only skips the element. The result is the variable \<open>targetRow\<close>:
  \<open>None\<close> for \<open>null\<close>, otherwise the handle, whose target may itself be \<open>null\<close>.
  The search for a date in the row's cells only feeds the log and is left out.
\<close>

fun scanSpans :: "env \<Rightarrow> handle list \<Rightarrow> handle option option io" where
  "scanSpans env [] = io_return None"
| "scanSpans env (span # rest) =
     io_bind (getTextContent env span) (\<lambda>spanText.
       if isMissingHoursText spanText
       then io_bind (evaluate env ''closestRow'' (Some span)
                       (\<lambda>root el. case el of Some h \<Rightarrow> closestRow root h | None \<Rightarrow> None))
              (\<lambda>targetRow.
                 io_bind (validateRow env targetRow) (\<lambda>validated.
                   if validated then io_return (Some targetRow) else scanSpans env rest))
       else scanSpans env rest)"

fun findTargetRow :: "env \<Rightarrow> string list \<Rightarrow> handle option option io" where
  "findTargetRow env [] = io_return None"
| "findTargetRow env (selector # rest) =
     io_bind
       (io_catch (io_bind (queryAll env selector) (scanSpans env)) (\<lambda>e. io_return None))
       (\<lambda>targetRow. case targetRow of
          Some row \<Rightarrow> io_return (Some row)
        | None \<Rightarrow> findTargetRow env rest)"

text \<open>
  The row the locator is meant to select from the matched elements, taken in the order
  of the selector list and, within a selector, of the matches: the row of the first
  element whose text is a missing-hours text and whose row has the toggle.
\<close>

definition isValidCandidate :: "node \<Rightarrow> handle \<Rightarrow> bool" where
  "isValidCandidate root el =
     (isMissingHoursText (textContent (the (node_at root el)))
      \<and> hasToggle root (closestRow root el))"

definition firstValidatedRow :: "node \<Rightarrow> handle list \<Rightarrow> handle option option" where
  "firstValidatedRow root candidates =
     map_option (closestRow root) (find (isValidCandidate root) candidates)"

subsection \<open>handleFactorialTimeEntry, steps 2 and 3: the modal and the add button\<close>

definition closeSelectors :: "string list" where
  \<open>closeSelectors =
     [''div[role="button"][aria-label="Close"]'', ''button[aria-label="Close"]'',
      ''[aria-label="Close"]'',
      ''button:has-text("'' @ [CHR 0xC3, CHR 0x83, CHR 0xE2, CHR 0x80, CHR 0x94] @ ''")'',
      ''button:has-text("'' @ [CHR 0xC3, CHR 0xA2, CHR 0xC5, CHR 0x93, CHR 0xE2, CHR 0x80, CHR 0xA2]
         @ ''")'',
      ''.close-button'', ''[data-testid="close"]'']\<close>

definition dismissModal :: "env \<Rightarrow> unit io" where
  \<open>dismissModal env =
     io_catch
       (io_bind (queryOne env ''[aria-modal="true"]'') (\<lambda>modal.
          case modal of
            None \<Rightarrow> io_return ()
          | Some m \<Rightarrow>
              io_bind
                (for_each_until
                   (\<lambda>selector. io_bind (queryOne env selector) (\<lambda>closeButton.
                      case closeButton of
                        Some b \<Rightarrow> io_then (click env b)
                                   (io_then (waitForTimeout env 1000) (io_return True))
                      | None \<Rightarrow> io_return False))
                   closeSelectors)
                (\<lambda>modalClosed.
                   io_then
                     (io_when (\<not> modalClosed)
                        (io_then (perform env (KeyboardPress ''Escape'')) (waitForTimeout env 1000)))
                     (io_bind (queryOne env ''[aria-modal="true"]'') (\<lambda>stillHasModal.
                        io_when (stillHasModal \<noteq> None)
                          (io_then (perform env (ClickSelector ''body''))
                             (waitForTimeout env 1000)))))))
       (\<lambda>e. io_return ())\<close>

text \<open>
  Where the word for the add button has its \<open>n\<close> with tilde, the file \<open>time-tracker.ts\<close>
  holds the four bytes \<open>C3 83 C2 B1\<close>: the two characters \<open>U+00C3\<close> (capital \<open>A\<close> with
  tilde) and \<open>U+00B1\<close> (plus-minus sign), in the four selectors, in the word of the scan
  by text and in the error message alike.
\<close>

definition n_tilde_as_written :: string where
  "n_tilde_as_written = [CHR 0xC3, CHR 0x83, CHR 0xC2, CHR 0xB1]"

definition addButtonSelectors :: "string list" where
  \<open>addButtonSelectors =
     [''button:has-text("A'' @ n_tilde_as_written @ ''adir")'',
      ''button:text("A'' @ n_tilde_as_written @ ''adir")'',
      ''[role="button"]:has-text("A'' @ n_tilde_as_written @ ''adir")'',
      ''button:contains("A'' @ n_tilde_as_written @ ''adir")'']\<close>

text \<open>The scan over all buttons for one whose text holds the word, in lower case.\<close>

definition findButtonByText :: "env \<Rightarrow> string \<Rightarrow> handle option io" where
  "findButtonByText env word =
     io_bind (queryAll env ''button'') (\<lambda>allButtons.
       for_first
         (\<lambda>button. io_bind (getTextContent env button) (\<lambda>text.
            io_return (if text \<noteq> [] \<and> str_includes (toLowerCase (trim text)) word
                       then Some button else None)))
         allButtons)"

definition findAddButton :: "env \<Rightarrow> handle io" where
  \<open>findAddButton env =
     io_bind (waitForAny env 5000 addButtonSelectors) (\<lambda>addButton.
     io_bind (case addButton of
                Some b \<Rightarrow> io_return (Some b)
              | None \<Rightarrow> findButtonByText env (''a'' @ n_tilde_as_written @ ''adir''))
       (\<lambda>addButton.
          case addButton of
            None \<Rightarrow> io_throw (Error (''Could not find "A'' @ n_tilde_as_written
                      @ ''adir" button after clicking toggle''))
          | Some b \<Rightarrow> io_return b))\<close>

subsection \<open>fillFactorialPopup\<close>

definition workTypeSelectors :: "string list" where
  \<open>workTypeSelectors =
     [''select'', ''[role="combobox"]'', ''input[placeholder*="tipo"]'',
      ''input[placeholder*="work"]'', ''input[placeholder*="category"]'']\<close>

definition setWorkType :: "env \<Rightarrow> unit io" where
  "setWorkType env =
     io_then
       (for_each_until
          (\<lambda>selector. io_bind (queryOne env selector) (\<lambda>element.
             case element of
               None \<Rightarrow> io_return False
             | Some el \<Rightarrow> io_bind (isVisible env el) (\<lambda>v.
                 if v
                 then io_then (click env el)
                     (io_then (waitForTimeout env 500)
                     (io_then (fill env el [])
                     (io_then (perform env (TypeText el ''Trabajo''))
                     (io_then (waitForTimeout env 500)
                     (io_then (perform env (KeyboardPress ''Tab''))
                       (io_return True))))))
                 else io_return False)))
          workTypeSelectors)
       (io_return ())"

text \<open>Start time into the first input, end time into the second.\<close>

definition fillStartEnd :: "env \<Rightarrow> workEntry \<Rightarrow> handle \<Rightarrow> handle \<Rightarrow> unit io" where
  "fillStartEnd env entry first second =
     io_catch
       (io_then (click env first)
       (io_then (fill env first (startTime entry))
       (io_then (waitForTimeout env 500)
       (io_then (click env second)
       (io_then (fill env second (endTime entry))
         (waitForTimeout env 500))))))
       (\<lambda>e. io_throw e)"

definition startTimeSelectors :: "string list" where
  \<open>startTimeSelectors =
     [''input[placeholder*="inicio"]'', ''input[placeholder*="start"]'', ''input[name*="start"]'',
      ''input[id*="start"]'']\<close>

definition endTimeSelectors :: "string list" where
  \<open>endTimeSelectors =
     [''input[placeholder*="fin"]'', ''input[placeholder*="end"]'', ''input[name*="end"]'',
      ''input[id*="end"]'']\<close>

text \<open>
  The last resort: one loop per field. The flag each loop leaves (\<open>startFilled\<close>,
  \<open>endFilled\<close>) is only logged as a warning when it is false.
\<close>

definition fillIfVisible :: "env \<Rightarrow> string \<Rightarrow> string \<Rightarrow> bool io" where
  "fillIfVisible env v selector =
     io_bind (queryOne env selector) (\<lambda>element.
       case element of
         None \<Rightarrow> io_return False
       | Some el \<Rightarrow> io_bind (isVisible env el) (\<lambda>vis.
           if vis
           then io_then (click env el)
               (io_then (fill env el v)
               (io_then (waitForTimeout env 500) (io_return True)))
           else io_return False))"

definition fillBySelectors :: "env \<Rightarrow> string list \<Rightarrow> string \<Rightarrow> bool io" where
  "fillBySelectors env selectors v = for_each_until (fillIfVisible env v) selectors"

definition fillTimes :: "env \<Rightarrow> workEntry \<Rightarrow> unit io" where
  \<open>fillTimes env entry =
     io_bind (queryAll env ''input[type="time"]'') (\<lambda>timeInputs.
     io_bind (queryAll env ''input'') (\<lambda>allInputs.
       case timeInputs of
         t0 # t1 # ts \<Rightarrow> fillStartEnd env entry t0 t1
       | _ \<Rightarrow> (case allInputs of
                 a0 # a1 # as \<Rightarrow> fillStartEnd env entry a0 a1
               | _ \<Rightarrow> io_bind (fillBySelectors env startTimeSelectors (startTime entry)) (\<lambda>startFilled.
                       io_bind (fillBySelectors env endTimeSelectors (endTime entry)) (\<lambda>endFilled.
                         io_return ())))))\<close>

definition applyButtonSelectors :: "string list" where
  \<open>applyButtonSelectors =
     [''button:has-text("Aplicar")'', ''button:text("Aplicar")'',
      ''[role="button"]:has-text("Aplicar")'', ''button[type="submit"]'']\<close>

text \<open>
  The loop that assigns \<open>applyButton\<close>: the variable takes what each \<open>$\<close> returns, also
  \<open>null\<close> and also an element that is not visible, and the loop breaks only on a
  visible one. An error of \<open>$\<close> leaves the variable as it was; an error of
  \<open>isVisible\<close> comes after the assignment. One pass of the loop gives the variable
  and whether the loop breaks.
\<close>

definition tryApplySelector :: "env \<Rightarrow> string \<Rightarrow> handle option \<Rightarrow> (handle option \<times> bool) io" where
  "tryApplySelector env selector applyButton =
     io_catch
       (io_bind (queryOne env selector) (\<lambda>found.
          case found of
            None \<Rightarrow> io_return (None, False)
          | Some b \<Rightarrow> io_catch (io_bind (isVisible env b) (\<lambda>v. io_return (Some b, v)))
                       (\<lambda>e. io_return (Some b, False))))
       (\<lambda>e. io_return (applyButton, False))"

fun assignApplyButton :: "env \<Rightarrow> string list \<Rightarrow> handle option \<Rightarrow> handle option io" where
  "assignApplyButton env [] applyButton = io_return applyButton"
| "assignApplyButton env (selector # rest) applyButton =
     io_bind (tryApplySelector env selector applyButton) (\<lambda>(assigned, broke).
       if broke then io_return assigned else assignApplyButton env rest assigned)"

definition findApplyButton :: "env \<Rightarrow> handle io" where
  \<open>findApplyButton env =
     io_bind (assignApplyButton env applyButtonSelectors None) (\<lambda>applyButton.
     io_bind (case applyButton of
                Some b \<Rightarrow> io_return (Some b)
              | None \<Rightarrow> findButtonByText env ''aplicar'') (\<lambda>applyButton.
       case applyButton of
         None \<Rightarrow> io_throw (Error ''Could not find "Aplicar" button to submit the form'')
       | Some b \<Rightarrow> io_return b))\<close>

definition submitPopup :: "env \<Rightarrow> bool io" where
  \<open>submitPopup env =
     io_bind (findApplyButton env) (\<lambda>applyButton.
       io_then (click env applyButton)
       (io_then (waitForTimeout env 3000)
       (io_bind (page_url env) (\<lambda>currentUrl.
        io_bind (queryAll env ''.success, [data-testid="success"], .notification-success'')
          (\<lambda>successIndicators.
             if length successIndicators > 0 then io_return True else io_return True)))))\<close>

definition fillFactorialPopup :: "env \<Rightarrow> workEntry \<Rightarrow> bool io" where
  "fillFactorialPopup env entry =
     io_catch
       (io_then (setWorkType env) (io_then (fillTimes env entry) (submitPopup env)))
       (\<lambda>error. io_return False)"

subsection \<open>handleFactorialTimeEntry, steps 2, 3 and 5, and the whole workflow\<close>

text \<open>
  Step 2, from the lookup of the toggle in the target row to the wait after the click on
  it. The result is \<open>False\<close> where the function returns \<open>false\<close> from inside the step
  (the \<open>catch\<close> of the toggle lookup), \<open>True\<close> where it goes on to step 3.
\<close>

definition clickToggle :: "env \<Rightarrow> handle option \<Rightarrow> bool io" where
  \<open>clickToggle env targetRow =
     io_bind
       (io_catch
          (io_bind (evaluate env ''toggleButton'' targetRow findToggle) (\<lambda>t. io_return (Some t)))
          (\<lambda>error. io_return None))
       (\<lambda>toggleButton. case toggleButton of
          None \<Rightarrow> io_return False
        | Some toggle \<Rightarrow>
            io_then (dismissModal env)
            (io_bind (queryOne env ''[aria-modal="true"]'') (\<lambda>lastModalCheck.
             io_then (io_when (lastModalCheck \<noteq> None) (perform env Screenshot))
            (io_then (case toggle of Some t \<Rightarrow> click env t | None \<Rightarrow> io_return ())
            (io_then (waitForTimeout env 2000)
              (io_return True))))))\<close>

text \<open>Step 3: find the add button, click it, wait.\<close>

definition clickAddButton :: "env \<Rightarrow> unit io" where
  "clickAddButton env =
     io_bind (findAddButton env) (\<lambda>addButton.
       io_then (click env addButton) (waitForTimeout env 3000))"

text \<open>
  The function evaluated on the target row after the submit: is there a \<open>span\<close> in the
  row whose text passes the missing-hours test. The row is the element the handle has
  held since step 1.
\<close>

definition stillHasMissingHours :: "node option \<Rightarrow> bool" where
  "stillHasMissingHours row =
     (case row of
        None \<Rightarrow> False
      | Some n \<Rightarrow> list_ex (\<lambda>(p, span). isMissingHoursText (textContent span))
                   (querySelectorAll_tag ''SPAN'' [] n))"

definition verifySubmission :: "env \<Rightarrow> handle option \<Rightarrow> bool \<Rightarrow> bool io" where
  "verifySubmission env targetRow fillResult =
     io_catch
       (io_then (waitForTimeout env 2000)
       (io_bind (evaluate_held env ''stillHasMissingHours'' targetRow stillHasMissingHours)
          (\<lambda>still. if still then io_return False else io_return True)))
       (\<lambda>verifyError. io_return fillResult)"

definition handleFactorialTimeEntry_try :: "env \<Rightarrow> workEntry \<Rightarrow> bool io" where
  "handleFactorialTimeEntry_try env entry =
     io_then (waitForTimeout env 3000)
     (io_bind (findTargetRow env missingHoursSelectors) (\<lambda>targetRow.
        case targetRow of
          None \<Rightarrow> io_return True
        | Some row \<Rightarrow>
            io_bind (clickToggle env row) (\<lambda>toggled.
              if \<not> toggled then io_return False
              else io_then (clickAddButton env)
                   (io_bind (fillFactorialPopup env entry) (\<lambda>fillResult.
                      if fillResult then verifySubmission env row fillResult
                      else io_return fillResult)))))"

definition handleFactorialTimeEntry :: "env \<Rightarrow> workEntry \<Rightarrow> bool io" where
  "handleFactorialTimeEntry env entry =
     io_catch (handleFactorialTimeEntry_try env entry) (\<lambda>error. io_return False)"

subsection \<open>logWorkHours\<close>

definition openAttendancePage :: "env \<Rightarrow> unit io" where
  "openAttendancePage env =
     io_bind (page_url env) (\<lambda>currentUrl.
       io_when (\<not> str_includes currentUrl ''attendance'' \<and> \<not> str_includes currentUrl ''time'')
         (io_then (perform env (Goto ''https://app.factorialhr.com/attendance/clock-in''))
         (io_then (perform env (WaitForLoadState ''load''))
           (waitForTimeout env 2000))))"

definition logWorkHours :: "env \<Rightarrow> workEntry \<Rightarrow> bool io" where
  "logWorkHours env entry =
     io_catch
       (io_then (openAttendancePage env)
       (io_then (dismissPopups env)
       (io_bind
          (io_catch
             (io_bind (handleFactorialTimeEntry env entry) (\<lambda>success.
                if \<not> success then io_throw (Error ''Factorial workflow failed'')
                else io_return success))
             (\<lambda>error. io_throw (Error ''Could not log work hours using Factorial workflow'')))
          (\<lambda>success. if success then io_return True else io_return False))))
       (\<lambda>error. io_return False)"


subsection \<open>formatBreakTime\<close>

text \<open>
  \<open>minutes\<close> is a number, taken here to hold a non-negative integer. \<open>minutes / 60\<close> is
  the division of doubles; \<open>minutes % 60\<close> is exact.
\<close>

definition formatBreakTime :: "(nat \<Rightarrow> string) \<Rightarrow> nat \<Rightarrow> string" where
  "formatBreakTime exponential minutes =
     (let hours = floor_quotient minutes 60;
          mins = minutes mod 60
      in padStart 2 (CHR ''0'') (numberToString exponential hours) @ '':''
         @ padStart 2 (CHR ''0'') (numberToString exponential mins))"

subsection \<open>Dates\<close>

text \<open>
  A JavaScript \<open>Date\<close> as the program reads it: the local calendar day, counted in days
  from 1 January 1970, and the local time of day in milliseconds. The time zone gives
  \<open>getTimezoneOffset()\<close> for a date, in minutes (UTC minus local time).
\<close>

record jsdate =
  localDay :: int
  msOfDay :: int

type_synonym timezone = "jsdate \<Rightarrow> int"

text \<open>Year, month and day of the month of a day number, in the Gregorian calendar.\<close>

definition civil_from_days :: "int \<Rightarrow> int \<times> int \<times> int" where
  "civil_from_days days =
     (let z = days + 719468;
          era = z div 146097;
          doe = z mod 146097;
          yoe = (doe - doe div 1460 + doe div 36524 - doe div 146096) div 365;
          doy = doe - (365 * yoe + yoe div 4 - yoe div 100);
          mp = (5 * doy + 2) div 153;
          d = doy - (153 * mp + 2) div 5 + 1;
          m = (if mp < 10 then mp + 3 else mp - 9);
          y = yoe + era * 400 + (if m \<le> 2 then 1 else 0)
      in (y, m, d))"

definition getDay :: "jsdate \<Rightarrow> int" where
  "getDay d = (localDay d + 4) mod 7"

definition getDate :: "jsdate \<Rightarrow> int" where
  "getDate d = (case civil_from_days (localDay d) of (y, m, dd) \<Rightarrow> dd)"

text \<open>
  \<open>setDate(n)\<close> sets the day of the month and keeps the local time of day; a value
  outside the month moves into the neighbouring months.
\<close>

definition setDate :: "jsdate \<Rightarrow> int \<Rightarrow> jsdate" where
  "setDate d n = d\<lparr>localDay := localDay d - getDate d + n\<rparr>"

text \<open>
  \<open>toISOString().split('T')[0]\<close>: the calendar date of the same instant in UTC, as
  \<open>YYYY-MM-DD\<close> (for the years 0000 to 9999).
\<close>

definition utcDay :: "timezone \<Rightarrow> jsdate \<Rightarrow> int" where
  "utcDay tz d = (localDay d * 86400000 + msOfDay d + tz d * 60000) div 86400000"

definition isoDate :: "int \<Rightarrow> string" where
  "isoDate days =
     (case civil_from_days days of
        (y, m, d) \<Rightarrow> padStart 4 (CHR ''0'') (toString_nat (nat y)) @ ''-''
                     @ padStart 2 (CHR ''0'') (toString_nat (nat m)) @ ''-''
                     @ padStart 2 (CHR ''0'') (toString_nat (nat d)))"

definition toISODateString :: "timezone \<Rightarrow> jsdate \<Rightarrow> string" where
  "toISODateString tz d = isoDate (utcDay tz d)"

subsection \<open>getCurrentWeekEntries\<close>

definition getCurrentWeekEntries :: "config \<Rightarrow> timezone \<Rightarrow> jsdate \<Rightarrow> workEntry list" where
  "getCurrentWeekEntries cfg tz today =
     (let dayOfWeek = getDay today;
          diff = getDate today - dayOfWeek + (if dayOfWeek = 0 then - 6 else 1);
          startOfWeek = setDate today diff
      in map (\<lambda>i.
           let workDay = setDate startOfWeek (getDate startOfWeek + i);
               dateString = toISODateString tz workDay
           in \<lparr>date = dateString,
               startTime = workHours_defaultStartTime cfg,
               endTime = workHours_defaultEndTime cfg,
               breakMinutes = workHours_defaultBreakMinutes cfg,
               description = Some (''Work day - '' @ dateString)\<rparr>)
         [0, 1, 2, 3, 4])"

subsection \<open>logAnyMissingHours\<close>

definition logAnyMissingHours :: "env \<Rightarrow> config \<Rightarrow> timezone \<Rightarrow> jsdate \<Rightarrow> bool io" where
  "logAnyMissingHours env cfg tz now =
     io_catch
       (let defaultEntry = \<lparr>date = toISODateString tz now,
                            startTime = workHours_defaultStartTime cfg,
                            endTime = workHours_defaultEndTime cfg,
                            breakMinutes = workHours_defaultBreakMinutes cfg,
                            description = Some ''Automated work hours entry''\<rparr>
        in io_then (openAttendancePage env)
          (io_then (dismissPopups env)
            (handleFactorialTimeEntry env defaultEntry)))
       (\<lambda>error. io_return False)"

section \<open>index.ts: the log-custom command\<close>

text \<open>The options as commander hands them over: strings, the description optional.\<close>

record customOptions =
  opt_date :: string
  opt_start :: string
  opt_end :: string
  opt_break :: string
  opt_description :: "string option"

text \<open>
  \<open>parseInt\<close> of a string: white space, an optional sign, then the longest run of
  decimal digits; NaN (\<open>None\<close>) when there is no digit. The \<open>0x\<close> prefix is not modelled.
\<close>

definition parseInt :: "string \<Rightarrow> int option" where
  "parseInt s =
     (let t = dropWhile is_space s;
          negative = (case t of c # r \<Rightarrow> c = CHR ''-'' | [] \<Rightarrow> False);
          u = (case t of c # r \<Rightarrow> if c = CHR ''-'' \<or> c = CHR ''+'' then r else t | [] \<Rightarrow> t);
          digits = takeWhile is_digit u
      in if digits = [] then None
         else Some (if negative then - int (decimal_value digits) else int (decimal_value digits)))"

text \<open>The work entry the action builds from the options.\<close>

definition customEntry :: "customOptions \<Rightarrow> workEntry" where
  "customEntry options =
     \<lparr>date = opt_date options,
      startTime = opt_start options,
      endTime = opt_end options,
      breakMinutes = parseInt (opt_break options),
      description = (case opt_description options of
                       None \<Rightarrow> Some (''Work day - '' @ opt_date options)
                     | Some t \<Rightarrow> if t = [] then Some (''Work day - '' @ opt_date options)
                                 else Some t)\<rparr>"

text \<open>
  The action of the command. The result is the exit code of the process: 1 from
  \<open>process.exit(1)\<close>, which ends the process where it stands, and 0 when the action
  runs to its end through the \<open>finally\<close> block.
\<close>

definition logCustom :: "env \<Rightarrow> config \<Rightarrow> customOptions \<Rightarrow> nat io" where
  "logCustom env cfg options =
     io_catch
       (io_then (validateConfig cfg)
       (io_bind (initialize env new_automation) (\<lambda>automation.
        io_bind (login env cfg automation) (\<lambda>loginSuccess.
          if \<not> loginSuccess then io_throw (Error ''Login failed'')
          else io_then (navigateToTimeTracking env cfg automation)
            (if \<not> has_page automation then io_throw (Error ''Page not initialized'')
             else io_bind (logWorkHours env (customEntry options)) (\<lambda>success.
                    if success then io_then (cleanup env automation) (io_return 0)
                    else io_return 1))))))
       (\<lambda>error. io_return 1)"

section \<open>Pages to run the program on\<close>

text \<open>
  A site that answers the same at every moment, apart from its document: the elements
  each selector matches, the elements \<open>waitForSelector\<close> finds, everything visible, no
  call throwing. Its elements stay where they are, so the element a handle holds is the
  one at the handle's position.
\<close>

definition fixture ::
  "(action list \<Rightarrow> node) \<Rightarrow> (string \<times> handle list) list \<Rightarrow> (string \<times> handle) list \<Rightarrow> string \<Rightarrow> env" where
  "fixture doc matches appearing u =
     \<lparr>dom = doc,
      held = (\<lambda>tr h. case node_at (doc tr) h of Some n \<Rightarrow> n | None \<Rightarrow> Element [] [] []),
      query_all = (\<lambda>tr s. case map_of matches s of Some hs \<Rightarrow> hs | None \<Rightarrow> []),
      appears = (\<lambda>tr s timeout. map_of appearing s),
      visible = (\<lambda>tr h. True),
      url = (\<lambda>tr. u),
      title = (\<lambda>tr. ''Factorial''),
      throws = (\<lambda>tr c. None)\<rparr>"

text \<open>
  The attendance page: a table with a header row, whose \<open>-8h\<close> total has no toggle
  beside it, and one day's row with a marker cell and the toggle; next to the table the
  popup with two buttons, which carry the given labels, and the given inputs. The add
  button of \<open>popup\<close> carries the word as the selectors of the program spell it.
\<close>

definition headerRow :: node where
  "headerRow =
     Element ''TR'' []
       [Element ''TH'' [] [Element ''SPAN'' [(''title'', ''-8h'')] [TextNode ''-8h'']]]"

definition dataRow :: "node \<Rightarrow> node" where
  "dataRow marker =
     Element ''TR'' []
       [Element ''TD'' [] [TextNode ''12''],
        Element ''TD'' [] [marker],
        Element ''TD'' []
          [Element ''BUTTON'' [(''data-intercom-target'', ''attendance-row-toggle'')] []]]"

definition popup_labelled :: "string \<Rightarrow> string \<Rightarrow> node list \<Rightarrow> node" where
  "popup_labelled add apply inputs =
     Element ''DIV'' []
       ([Element ''BUTTON'' [] [TextNode add], Element ''BUTTON'' [] [TextNode apply]] @ inputs)"

definition popup :: "node list \<Rightarrow> node" where
  "popup inputs = popup_labelled (''A'' @ n_tilde_as_written @ ''adir'') ''Aplicar'' inputs"

definition timeInputs :: "node list" where
  "timeInputs = [Element ''INPUT'' [(''type'', ''time'')] [], Element ''INPUT'' [(''type'', ''time'')] []]"

definition attendance_doc :: "node \<Rightarrow> node list \<Rightarrow> node" where
  "attendance_doc marker inputs =
     Element ''BODY'' [] [Element ''TABLE'' [] [headerRow, dataRow marker], popup inputs]"

definition missing_span :: node where
  "missing_span = Element ''SPAN'' [(''title'', ''-8h'')] [TextNode ''-8h'']"

definition logged_span :: node where
  "logged_span = Element ''SPAN'' [] [TextNode ''8h'']"

definition missing_div :: node where
  "missing_div = Element ''DIV'' [(''title'', ''-8h'')] [TextNode ''-8h'']"

text \<open>
  The handles: the header's span, the day's row, its marker and its toggle, the two
  buttons and the two inputs of the popup.
\<close>

definition h_header_span :: handle where "h_header_span = [0, 0, 0, 0]"
definition h_row :: handle where "h_row = [1, 0]"
definition h_marker :: handle where "h_marker = [0, 1, 1, 0]"
definition h_toggle :: handle where "h_toggle = [0, 2, 1, 0]"
definition h_add :: handle where "h_add = [0, 1]"
definition h_apply :: handle where "h_apply = [1, 1]"
definition h_start :: handle where "h_start = [2, 1]"
definition h_end :: handle where "h_end = [3, 1]"

definition button_matches :: "(string \<times> handle list) list" where
  \<open>button_matches =
     [(''button'', [h_toggle, h_add, h_apply]),
      (''button:has-text("Aplicar")'', [h_apply]),
      (''button:text("Aplicar")'', [h_apply])]\<close>

definition input_matches :: "(string \<times> handle list) list" where
  \<open>input_matches =
     [(''input[type="time"]'', [h_start, h_end]),
      (''input'', [h_start, h_end])]\<close>

definition add_appearing :: "(string \<times> handle) list" where
  \<open>add_appearing =
     [(''button:has-text("A'' @ n_tilde_as_written @ ''adir")'', h_add),
      (''button:text("A'' @ n_tilde_as_written @ ''adir")'', h_add)]\<close>

text \<open>What the missing-hours selectors match when the given elements carry \<open>-8h\<close>.\<close>

definition marker_matches :: "handle list \<Rightarrow> handle list \<Rightarrow> (string \<times> handle list) list" where
  \<open>marker_matches spans others =
     [(''span[title="-8h"]'', spans),
      (''span:has-text("-8h")'', spans),
      (''[title="-8h"]'', spans @ others),
      (''span[title*="-"]'', spans),
      (''span:has-text("-")'', spans)]\<close>

definition attendance_url :: string where
  "attendance_url = ''https://app.factorialhr.com/attendance/clock-in''"

definition apply_clicked :: "action list \<Rightarrow> bool" where
  "apply_clicked tr = (Click h_apply \<in> set tr)"

text \<open>The day's row shows \<open>-8h\<close> in a span and the submit changes nothing.\<close>

definition unchanged_page :: env where
  "unchanged_page =
     fixture (\<lambda>tr. attendance_doc missing_span timeInputs)
       (marker_matches [h_header_span, h_marker] [] @ button_matches @ input_matches)
       add_appearing attendance_url"

text \<open>The day's row shows \<open>-8h\<close> in a span until the apply button is clicked, \<open>8h\<close> after.\<close>

definition updated_page :: env where
  "updated_page =
     fixture (\<lambda>tr. attendance_doc (if apply_clicked tr then logged_span else missing_span) timeInputs)
       (marker_matches [h_header_span, h_marker] [] @ button_matches @ input_matches)
       add_appearing attendance_url"

text \<open>The day's row shows \<open>-8h\<close> in a \<open>div\<close> and the submit changes nothing.\<close>

definition marker_in_div_page :: env where
  "marker_in_div_page =
     fixture (\<lambda>tr. attendance_doc missing_div timeInputs)
       (marker_matches [h_header_span] [h_marker] @ button_matches @ input_matches)
       add_appearing attendance_url"

text \<open>Every day is logged: only the header carries \<open>-8h\<close>.\<close>

definition all_logged_page :: env where
  "all_logged_page =
     fixture (\<lambda>tr. attendance_doc logged_span timeInputs)
       (marker_matches [h_header_span] [] @ button_matches @ input_matches)
       add_appearing attendance_url"

text \<open>
  The row still shows \<open>-8h\<close> in a span after the submit, but the re-read of the row
  throws.
\<close>

definition context_lost_page :: env where
  "context_lost_page = unchanged_page
     \<lparr>throws := (\<lambda>tr c. if c = Evaluate ''stillHasMissingHours'' (Some h_row)
                         then Some (Error ''Execution context was destroyed'') else None)\<rparr>"


text \<open>The second button of the popup reads \<open>Cancelar\<close>: there is no apply button.\<close>

definition no_apply_page :: env where
  \<open>no_apply_page =
     fixture
       (\<lambda>tr. Element ''BODY'' []
          [Element ''TABLE'' [] [headerRow, dataRow missing_span],
           popup_labelled (''A'' @ n_tilde_as_written @ ''adir'') ''Cancelar'' timeInputs])
       (marker_matches [h_header_span, h_marker] []
        @ [(''button'', [h_toggle, h_add, h_apply])] @ input_matches)
       add_appearing attendance_url\<close>

text \<open>
  The add button reads \<open>A\<close>, \<open>U+00F1\<close>, \<open>adir\<close>, the Spanish word: none of the add
  button selectors finds it.
\<close>

definition spanish_page :: env where
  "spanish_page =
     fixture
       (\<lambda>tr. Element ''BODY'' []
          [Element ''TABLE'' [] [headerRow, dataRow missing_span],
           popup_labelled (''A'' @ [CHR 0xC3, CHR 0xB1] @ ''adir'') ''Aplicar'' timeInputs])
       (marker_matches [h_header_span, h_marker] [] @ button_matches @ input_matches)
       [] attendance_url"

text \<open>The popup has its two buttons and no input at all.\<close>

definition no_inputs_page :: env where
  "no_inputs_page =
     fixture (\<lambda>tr. attendance_doc missing_span [])
       (marker_matches [h_header_span, h_marker] [] @ button_matches)
       add_appearing attendance_url"

text \<open>A page on which no selector matches anything, at the login URL.\<close>

definition empty_page :: env where
  "empty_page = fixture (\<lambda>tr. Element ''BODY'' [] []) [] [] ''https://app.factorialhr.com/login''"

text \<open>A browser in which every call throws.\<close>

definition broken_browser :: env where
  "broken_browser = (fixture (\<lambda>tr. Element ''BODY'' [] []) [] [] ''about:blank'')
     \<lparr>throws := (\<lambda>tr c. Some (Error ''Target page, context or browser has been closed''))\<rparr>"

text \<open>
  The login page after wrong credentials: the form, and an error message. The URL stays
  on \<open>/login\<close>.
\<close>

definition login_doc :: node where
  "login_doc =
     Element ''BODY'' []
       [Element ''INPUT'' [(''type'', ''email'')] [],
        Element ''INPUT'' [(''type'', ''password'')] [],
        Element ''BUTTON'' [(''type'', ''submit'')] [TextNode ''Sign in''],
        Element ''DIV'' [(''class'', ''error-message'')] [TextNode ''Invalid email or password'']]"

text \<open>A login page with the email input and nothing else.\<close>

definition email_only_page :: env where
  \<open>email_only_page =
     fixture (\<lambda>tr. Element ''BODY'' [] [Element ''INPUT'' [(''type'', ''email'')] []])
       [] [(''input[type="email"]'', [0])] ''https://app.factorialhr.com/login''\<close>

definition rejected_login_page :: env where
  \<open>rejected_login_page =
     fixture (\<lambda>tr. login_doc)
       [(''.error-message'', [[3]])]
       [(''input[type="email"]'', [0]), (''input[type="password"]'', [1]),
        (''button[type="submit"]'', [2])]
       ''https://app.factorialhr.com/login''\<close>

definition credentials :: config where
  "credentials =
     \<lparr>factorial_email = ''ana@example.com'', factorial_password = ''secret'',
      factorial_baseUrl = ''https://app.factorialhr.com'',
      workHours_defaultStartTime = ''09:00'', workHours_defaultEndTime = ''17:00'',
      workHours_defaultBreakMinutes = Some 60\<rparr>"

definition initialized :: automation where
  "initialized = \<lparr>has_browser = True, has_context = True, has_page = True\<rparr>"

definition nine_to_five :: workEntry where
  "nine_to_five =
     \<lparr>date = ''2024-01-10'', startTime = ''09:00'', endTime = ''17:00'',
      breakMinutes = Some 60, description = None\<rparr>"



text \<open>
  The histories of a run on these pages: up to the wait after the click on the toggle, up
  to the wait after the click on the add button, the two times filled in, the times and
  the submit, and the whole run with the wait before the verification.
\<close>

definition toggled_history :: "action list" where
  "toggled_history = [WaitForTimeout 2000, Click h_toggle, WaitForTimeout 3000]"

definition added_history :: "action list" where
  \<open>added_history =
     [WaitForTimeout 3000, Click h_add,
      WaitedForSelector (''button:has-text("A'' @ n_tilde_as_written @ ''adir")'') 5000]
     @ toggled_history\<close>

definition times_history :: "action list" where
  "times_history =
     [WaitForTimeout 500, Fill h_end ''17:00'', Click h_end,
      WaitForTimeout 500, Fill h_start ''09:00'', Click h_start]"

definition filled_history :: "action list" where
  "filled_history = [WaitForTimeout 3000, Click h_apply] @ times_history"

definition submitted_history :: "action list" where
  "submitted_history = WaitForTimeout 2000 # filled_history @ added_history"

text \<open>The history of \<open>login\<close> once the login page is open.\<close>

definition login_opened_history :: "action list" where
  "login_opened_history = [WaitForLoadState ''networkidle'', Goto ''https://app.factorialhr.com'']"

text \<open>The rejected login, and a log-custom call with a date that is not \<open>YYYY-MM-DD\<close>.\<close>

definition rejected_login_history :: "action list" where
  \<open>rejected_login_history =
     [WaitForLoadState ''networkidle'', Click [2],
      WaitedForSelector ''button[type="submit"]'' 2000, Fill [1] ''secret'',
      WaitedForSelector ''input[type="password"]'' 2000, Fill [0] ''ana@example.com'',
      WaitedForSelector ''input[type="email"]'' 5000,
      WaitForLoadState ''networkidle'', Goto ''https://app.factorialhr.com'']\<close>

definition bad_date_options :: customOptions where
  "bad_date_options =
     \<lparr>opt_date = ''31/12/2024'', opt_start = ''09:00'', opt_end = ''17:00'', opt_break = ''60'',
      opt_description = None\<rparr>"

text \<open>
  Central European Time, and a Wednesday shortly after midnight there: 10 January 2024,
  00:30 local time.
\<close>

definition cet :: timezone where
  "cet d = - 60"

definition wednesday_0030 :: jsdate where
  "wednesday_0030 = \<lparr>localDay = 19732, msOfDay = 1800000\<rparr>"

text \<open>
  A runtime for the runs that never print a number in exponent notation: what it would
  print there is not looked at.
\<close>

definition no_exponential :: "nat \<Rightarrow> string" where
  "no_exponential n = []"

section \<open>Verification\<close>

subsection \<open>Awaited calls\<close>

lemma io_bind_return [simp]: "io_bind (io_return x) f = f x"
  by (simp add: io_bind_def io_return_def)

lemma io_bind_throw [simp]: "io_bind (io_throw e) f = io_throw e"
  by (simp add: io_bind_def io_throw_def)

lemma io_then_return [simp]: "io_then (io_return x) k = k"
  by (simp add: io_then_def)

lemma io_then_throw [simp]: "io_then (io_throw e) k = io_throw e"
  by (simp add: io_then_def)

lemma io_catch_return [simp]: "io_catch (io_return x) h = io_return x"
  by (simp add: io_catch_def io_return_def)

lemma io_catch_throw [simp]: "io_catch (io_throw e) h = h e"
  by (simp add: io_catch_def io_throw_def)

lemma io_bind_Inr: "m tr = (Inr x, tr') \<Longrightarrow> io_bind m f tr = f x tr'"
  by (simp add: io_bind_def)

lemma io_bind_Inl: "m tr = (Inl e, tr') \<Longrightarrow> io_bind m f tr = (Inl e, tr')"
  by (simp add: io_bind_def)

lemma io_then_Inr: "m tr = (Inr x, tr') \<Longrightarrow> io_then m k tr = k tr'"
  by (simp add: io_then_def io_bind_def)

lemma io_then_Inl: "m tr = (Inl e, tr') \<Longrightarrow> io_then m k tr = (Inl e, tr')"
  by (simp add: io_then_def io_bind_def)

lemma io_catch_Inr: "m tr = (Inr x, tr') \<Longrightarrow> io_catch m h tr = (Inr x, tr')"
  by (simp add: io_catch_def)

lemma io_catch_Inl: "m tr = (Inl e, tr') \<Longrightarrow> io_catch m h tr = h e tr'"
  by (simp add: io_catch_def)

lemma readonly_result: "readonly m \<Longrightarrow> m tr = (fst (m tr), tr)"
  by (metis prod.collapse readonly_def)

lemma readonly_return [intro!, simp]: "readonly (io_return x)"
  by (simp add: readonly_def io_return_def)

lemma readonly_throw [intro!, simp]: "readonly (io_throw e)"
  by (simp add: readonly_def io_throw_def)

lemma readonly_bind [intro!]: "readonly m \<Longrightarrow> (\<And>x. readonly (f x)) \<Longrightarrow> readonly (io_bind m f)"
  unfolding readonly_def io_bind_def
  by (auto split: prod.splits sum.splits) (metis snd_conv)+

lemma readonly_catch [intro!]: "readonly m \<Longrightarrow> (\<And>e. readonly (h e)) \<Longrightarrow> readonly (io_catch m h)"
  unfolding readonly_def io_catch_def
  by (auto split: prod.splits sum.splits) (metis snd_conv)+

lemma readonly_observe [intro!, simp]: "readonly (observe env c f)"
  by (simp add: readonly_def observe_def split: option.split)

lemma readonly_on_element [intro!, simp]: "readonly (on_element env c h f)"
  by (simp add: readonly_def on_element_def split: option.split)

lemma readonly_evaluate [intro!, simp]: "readonly (evaluate env l t f)"
  by (simp add: evaluate_def split: option.split)

lemma readonly_queryOne [intro!, simp]: "readonly (queryOne env s)"
  by (simp add: queryOne_def)

lemma readonly_queryAll [intro!, simp]: "readonly (queryAll env s)"
  by (simp add: queryAll_def)

lemma readonly_getTextContent [intro!, simp]: "readonly (getTextContent env h)"
  by (simp add: getTextContent_def)

lemma readonly_isVisible [intro!, simp]: "readonly (isVisible env h)"
  by (simp add: isVisible_def)

lemma readonly_jsonValue [intro!, simp]: "readonly (jsonValue_truthy env h)"
  by (simp add: jsonValue_truthy_def)

lemma readonly_page_url [intro!, simp]: "readonly (page_url env)"
  by (simp add: readonly_def page_url_def)

lemma readonly_for_first: "(\<And>x. readonly (body x)) \<Longrightarrow> readonly (for_first body xs)"
  by (induction xs) (auto split: option.split)

lemma readonly_for_each_until: "(\<And>x. readonly (body x)) \<Longrightarrow> readonly (for_each_until body xs)"
  by (induction xs) auto

lemma io_bind_InrE:
  assumes "io_bind m f tr = (Inr x, tr')"
  obtains y tr1 where "m tr = (Inr y, tr1)" and "f y tr1 = (Inr x, tr')"
  using assms by (auto simp: io_bind_def split: prod.splits sum.splits)

lemma io_then_InrE:
  assumes "io_then m k tr = (Inr x, tr')"
  obtains y tr1 where "m tr = (Inr y, tr1)" and "k tr1 = (Inr x, tr')"
  using assms by (auto simp: io_then_def elim: io_bind_InrE)

lemma io_catch_rethrow [simp]: "io_catch m (\<lambda>e. io_throw e) = m"
  by (auto simp: io_catch_def io_throw_def split: prod.splits sum.splits)

lemma perform_InrD: "perform env a tr = (Inr y, tr1) \<Longrightarrow> tr1 = a # tr"
  by (auto simp: perform_def split: option.splits)

lemma observe_InrD: "observe env c f tr = (Inr y, tr1) \<Longrightarrow> tr1 = tr \<and> y = f tr"
  by (auto simp: observe_def split: option.splits)

lemma io_catch_total: "\<exists>b tr1. io_catch m (\<lambda>e. io_return d) tr = (Inr b, tr1)"
  by (simp add: io_catch_def io_return_def split: prod.splits sum.splits)


lemma for_first_returns: "\<exists>b tr'. for_first body xs tr = (Inr b, tr')"
proof (induction xs arbitrary: tr)
  case Nil
  then show ?case by (auto simp: io_return_def)
next
  case (Cons x xs)
  obtain b tr1 where step: "io_catch (body x) (\<lambda>e. io_return None) tr = (Inr b, tr1)"
    using io_catch_total [of "body x" None tr] by blast
  show ?case
  proof (cases b)
    case None
    with step Cons.IH [of tr1] show ?thesis by (simp add: io_bind_def)
  next
    case (Some y)
    with step show ?thesis by (auto simp: io_bind_def io_return_def)
  qed
qed



lemma io_catch_False_on_throw:
  "fst (m tr) = Inl e \<Longrightarrow> fst (io_catch m (\<lambda>error. io_return False) tr) = Inr False"
  by (cases "m tr") (simp add: io_catch_def io_return_def)

lemma io_then_throws: "fst (m tr) = Inl e \<Longrightarrow> fst (io_then m k tr) = Inl e"
  by (cases "m tr") (simp add: io_then_def io_bind_def)

lemma io_bind_throws: "fst (m tr) = Inl e \<Longrightarrow> fst (io_bind m f tr) = Inl e"
  by (cases "m tr") (simp add: io_bind_def)

lemma io_catch_fst_Inr: "fst (m tr) = Inr b \<Longrightarrow> fst (io_catch m h tr) = Inr b"
  by (cases "m tr") (simp add: io_catch_def)

subsection \<open>The row locator\<close>

lemma readonly_validateRow [intro!, simp]: "readonly (validateRow env row)"
  by (auto simp: validateRow_def)

lemma readonly_scanSpans: "readonly (scanSpans env spans)"
  by (induction spans) auto

lemma readonly_findTargetRow: "readonly (findTargetRow env selectors)"
  by (induction selectors) (auto intro!: readonly_scanSpans split: option.split)

lemma findTargetRow_no_throw: "fst (findTargetRow env selectors tr) \<noteq> Inl e"
proof (induction selectors arbitrary: tr)
  case Nil
  then show ?case by (simp add: io_return_def)
next
  case (Cons s rest)
  show ?case
    using Cons.IH
    by (auto simp: io_bind_def io_catch_def io_return_def split: prod.splits sum.splits option.splits)
qed

lemma closestRow_is_row:
  "closestRow root h = Some r \<Longrightarrow> \<exists>a cs. node_at root r = Some (Element ''TR'' a cs)"
  by (induction root h rule: closestRow.induct) (auto split: option.splits node.splits if_splits)

lemma hasToggle_None [simp]: "hasToggle root None = False"
  by (simp add: hasToggle_def findToggle_def)

lemma find_append_case:
  "find P (xs @ ys) = (case find P xs of Some x \<Rightarrow> Some x | None \<Rightarrow> find P ys)"
  by (induction xs) auto

lemma validation_result:
  assumes "\<forall>c. throws env tr c = None"
  shows "validateRow env targetRow tr = (Inr (hasToggle (dom env tr) targetRow), tr)"
proof (cases targetRow)
  case None
  then show ?thesis
    using assms
    by (simp add: validateRow_def evaluate_def observe_def io_bind_def io_catch_def io_return_def)
next
  case (Some r)
  show ?thesis
  proof (cases "node_at (dom env tr) r")
    case None
    then show ?thesis
      using assms Some
      by (simp add: validateRow_def evaluate_def on_element_def io_bind_def io_catch_def
          io_return_def hasToggle_def findToggle_def)
  next
    case (Some n)
    then show ?thesis
      using assms \<open>targetRow = Some r\<close>
      by (simp add: validateRow_def evaluate_def on_element_def io_bind_def io_catch_def
          io_return_def jsonValue_truthy_def observe_def)
  qed
qed

lemma scanSpans_first:
  assumes nothrow: "\<forall>c. throws env tr c = None"
      and attached: "\<forall>h \<in> set spans. node_at (dom env tr) h \<noteq> None"
  shows "scanSpans env spans tr = (Inr (firstValidatedRow (dom env tr) spans), tr)"
  using attached
proof (induction spans)
  case Nil
  then show ?case by (simp add: io_return_def firstValidatedRow_def)
next
  case (Cons span rest)
  from Cons.prems obtain n where n: "node_at (dom env tr) span = Some n" by auto
  have tc: "getTextContent env span tr = (Inr (textContent n), tr)"
    using nothrow n by (simp add: getTextContent_def on_element_def)
  have row: "evaluate env ''closestRow'' (Some span)
               (\<lambda>root el. case el of Some h \<Rightarrow> closestRow root h | None \<Rightarrow> None) tr
             = (Inr (closestRow (dom env tr) span), tr)"
    using nothrow n by (simp add: evaluate_def on_element_def)
  have rest: "scanSpans env rest tr = (Inr (firstValidatedRow (dom env tr) rest), tr)"
    using Cons by simp
  have v: "isValidCandidate (dom env tr) span
             = (isMissingHoursText (textContent n) \<and> hasToggle (dom env tr) (closestRow (dom env tr) span))"
    by (simp add: isValidCandidate_def n)
  show ?case
    by (auto simp: io_bind_def tc row rest validation_result [OF nothrow] v io_return_def
        firstValidatedRow_def)
qed

lemma findTargetRow_first:
  assumes nothrow: "\<forall>c. throws env tr c = None"
      and attached: "\<forall>s \<in> set selectors. \<forall>h \<in> set (query_all env tr s). node_at (dom env tr) h \<noteq> None"
  shows "findTargetRow env selectors tr
           = (Inr (firstValidatedRow (dom env tr) (concat (map (query_all env tr) selectors))), tr)"
  using attached
proof (induction selectors)
  case Nil
  then show ?case by (simp add: io_return_def firstValidatedRow_def)
next
  case (Cons s rest)
  have q: "queryAll env s tr = (Inr (query_all env tr s), tr)"
    using nothrow by (simp add: queryAll_def observe_def)
  have sc: "scanSpans env (query_all env tr s) tr
           = (Inr (firstValidatedRow (dom env tr) (query_all env tr s)), tr)"
    using Cons.prems by (intro scanSpans_first [OF nothrow]) simp
  have rest: "findTargetRow env rest tr
           = (Inr (firstValidatedRow (dom env tr) (concat (map (query_all env tr) rest))), tr)"
    using Cons by simp
  show ?case
    by (simp add: io_bind_def io_catch_def q sc rest find_append_case io_return_def
        firstValidatedRow_def split: option.split)
qed

lemma scanSpans_validated:
  assumes "fst (scanSpans env spans tr) = Inr (Some row)"
  shows "hasToggle (dom env tr) row \<and> (\<exists>span \<in> set spans. row = closestRow (dom env tr) span
           \<and> (\<exists>n. node_at (dom env tr) span = Some n \<and> isMissingHoursText (textContent n)))"
  using assms
proof (induction spans)
  case Nil
  then show ?case by (simp add: io_return_def)
next
  case (Cons span rest)
  show ?case
  proof (cases "fst (scanSpans env rest tr) = Inr (Some row)")
    case True
    with Cons.IH show ?thesis by auto
  next
    case False
    with Cons.prems show ?thesis
      by (auto simp: io_bind_def io_catch_def io_return_def getTextContent_def evaluate_def
          on_element_def observe_def jsonValue_truthy_def validateRow_def
          split: prod.splits sum.splits option.splits if_splits)
  qed
qed

lemma findTargetRow_validated:
  assumes "fst (findTargetRow env selectors tr) = Inr (Some row)"
  shows "\<exists>s \<in> set selectors. fst (scanSpans env (query_all env tr s) tr) = Inr (Some row)"
  using assms
proof (induction selectors)
  case Nil
  then show ?case by (simp add: io_return_def)
next
  case (Cons s rest)
  show ?case
  proof (cases "fst (findTargetRow env rest tr) = Inr (Some row)")
    case True
    with Cons.IH show ?thesis by auto
  next
    case False
    have ro: "snd (scanSpans env (query_all env tr s) tr) = tr"
      using readonly_scanSpans by (simp add: readonly_def)
    from False Cons.prems ro show ?thesis
      by (auto simp: io_bind_def io_catch_def io_return_def queryAll_def observe_def
          split: prod.splits sum.splits option.splits if_splits)
  qed
qed

text \<open>
  Claim C2. On every page, the row the locator selects is a \<open>TR\<close> that has the toggle
  marker \<open>[data-intercom-target="attendance-row-toggle"]\<close> and holds a matched element
  whose text is a missing-hours text: a row lacking the toggle is never selected. When no
  call throws and the matched elements are in the document, the selected row is the
  first one, in the order of the selector list, that has both; rows before it that lack
  the toggle, such as a header row with a \<open>-8h\<close> total, are passed over.
\<close>

theorem row_locator:
  "(fst (findTargetRow env missingHoursSelectors tr) = Inr (Some row) \<longrightarrow>
      (\<exists>r a cs. row = Some r \<and> node_at (dom env tr) r = Some (Element ''TR'' a cs)
         \<and> findToggle (dom env tr) (Some r) \<noteq> None
         \<and> (\<exists>s \<in> set missingHoursSelectors. \<exists>el \<in> set (query_all env tr s). \<exists>n.
               closestRow (dom env tr) el = Some r \<and> node_at (dom env tr) el = Some n
               \<and> isMissingHoursText (textContent n))))
   \<and> ((\<forall>c. throws env tr c = None)
        \<and> (\<forall>s \<in> set missingHoursSelectors. \<forall>el \<in> set (query_all env tr s).
              node_at (dom env tr) el \<noteq> None) \<longrightarrow>
      findTargetRow env missingHoursSelectors tr
        = (Inr (firstValidatedRow (dom env tr)
                 (concat (map (query_all env tr) missingHoursSelectors))), tr))"
proof (intro conjI impI)
  assume found: "fst (findTargetRow env missingHoursSelectors tr) = Inr (Some row)"
  from findTargetRow_validated [OF found] obtain s
    where s: "s \<in> set missingHoursSelectors"
      and sc: "fst (scanSpans env (query_all env tr s) tr) = Inr (Some row)" by blast
  from scanSpans_validated [OF sc] obtain el n
    where toggle: "hasToggle (dom env tr) row"
      and el: "el \<in> set (query_all env tr s)" "row = closestRow (dom env tr) el"
              "node_at (dom env tr) el = Some n" "isMissingHoursText (textContent n)"
    by blast
  from toggle obtain r where r: "row = Some r" by (cases row) simp_all
  with el have cr: "closestRow (dom env tr) el = Some r" by simp
  from closestRow_is_row [OF cr] obtain a cs
    where "node_at (dom env tr) r = Some (Element ''TR'' a cs)" by blast
  with toggle r s el cr
  show "\<exists>r a cs. row = Some r \<and> node_at (dom env tr) r = Some (Element ''TR'' a cs)
         \<and> findToggle (dom env tr) (Some r) \<noteq> None
         \<and> (\<exists>s \<in> set missingHoursSelectors. \<exists>el \<in> set (query_all env tr s). \<exists>n.
               closestRow (dom env tr) el = Some r \<and> node_at (dom env tr) el = Some n
               \<and> isMissingHoursText (textContent n))"
    unfolding hasToggle_def by blast
next
  assume "(\<forall>c. throws env tr c = None)
        \<and> (\<forall>s \<in> set missingHoursSelectors. \<forall>el \<in> set (query_all env tr s).
              node_at (dom env tr) el \<noteq> None)"
  then show "findTargetRow env missingHoursSelectors tr
        = (Inr (firstValidatedRow (dom env tr)
                 (concat (map (query_all env tr) missingHoursSelectors))), tr)"
    by (intro findTargetRow_first) simp_all
qed

theorem row_locator_witness:
  "(\<forall>c. throws unchanged_page [] c = None)
   \<and> list_all (\<lambda>el. node_at (dom unchanged_page []) el \<noteq> None)
        (concat (map (query_all unchanged_page []) missingHoursSelectors))
   \<and> concat (map (query_all unchanged_page []) missingHoursSelectors) ! 0 = h_header_span
   \<and> closestRow (dom unchanged_page []) h_header_span = Some [0, 0]
   \<and> \<not> hasToggle (dom unchanged_page []) (Some [0, 0])
   \<and> findTargetRow unchanged_page missingHoursSelectors [] = (Inr (Some (Some h_row)), [])"
proof -
  have nothrow: "\<forall>c. throws unchanged_page [] c = None"
    by (simp add: unchanged_page_def fixture_def)
  have attached: "\<forall>s \<in> set missingHoursSelectors. \<forall>el \<in> set (query_all unchanged_page [] s).
         node_at (dom unchanged_page []) el \<noteq> None"
    by code_simp
  have first: "concat (map (query_all unchanged_page []) missingHoursSelectors) ! 0 = h_header_span"
    by code_simp
  have header: "closestRow (dom unchanged_page []) h_header_span = Some [0, 0]"
    by code_simp
  have no_toggle: "\<not> hasToggle (dom unchanged_page []) (Some [0, 0])"
    by code_simp
  have sel: "firstValidatedRow (dom unchanged_page [])
               (concat (map (query_all unchanged_page []) missingHoursSelectors)) = Some (Some h_row)"
    by code_simp
  from row_locator [of unchanged_page "[]" "Some h_row"] nothrow attached
  have "findTargetRow unchanged_page missingHoursSelectors []
          = (Inr (firstValidatedRow (dom unchanged_page [])
               (concat (map (query_all unchanged_page []) missingHoursSelectors))), [])"
    by blast
  moreover have "list_all (\<lambda>el. node_at (dom unchanged_page []) el \<noteq> None)
        (concat (map (query_all unchanged_page []) missingHoursSelectors))"
    by code_simp
  ultimately show ?thesis using sel nothrow first header no_toggle by simp
qed

subsection \<open>Nothing to do\<close>

text \<open>
  Claim C3. If no candidate selector yields a validated row with a missing-hours marker,
  \<open>handleFactorialTimeEntry\<close> returns \<open>true\<close>, and all it has done by then is the
  initial wait: no click, no fill, no editor opened. (The search starts once the
  initial wait has completed.)
\<close>

theorem nothing_to_do:
  assumes wait: "throws env tr (Perform (WaitForTimeout 3000)) = None"
      and none: "fst (findTargetRow env missingHoursSelectors (WaitForTimeout 3000 # tr)) = Inr None"
  shows "handleFactorialTimeEntry env entry tr = (Inr True, WaitForTimeout 3000 # tr)"
proof -
  have w: "waitForTimeout env 3000 tr = (Inr (), WaitForTimeout 3000 # tr)"
    using wait by (simp add: waitForTimeout_def perform_def)
  have f: "findTargetRow env missingHoursSelectors (WaitForTimeout 3000 # tr)
             = (Inr None, WaitForTimeout 3000 # tr)"
    using none readonly_result [OF readonly_findTargetRow] by metis
  have "handleFactorialTimeEntry_try env entry tr = (Inr True, WaitForTimeout 3000 # tr)"
    unfolding handleFactorialTimeEntry_try_def
    by (simp add: io_then_def io_bind_def w f io_return_def)
  then show ?thesis
    by (simp add: handleFactorialTimeEntry_def io_catch_def)
qed

theorem nothing_to_do_witness:
  "throws all_logged_page [] (Perform (WaitForTimeout 3000)) = None
   \<and> fst (findTargetRow all_logged_page missingHoursSelectors [WaitForTimeout 3000]) = Inr None
   \<and> handleFactorialTimeEntry all_logged_page nine_to_five [] = (Inr True, [WaitForTimeout 3000])"
proof -
  have w: "throws all_logged_page [] (Perform (WaitForTimeout 3000)) = None"
    by (simp add: all_logged_page_def fixture_def)
  have n: "fst (findTargetRow all_logged_page missingHoursSelectors [WaitForTimeout 3000]) = Inr None"
    by code_simp
  from w n nothing_to_do [OF w n] show ?thesis by simp
qed

subsection \<open>The verification after the submit\<close>

lemma workflow_after_toggle:
  assumes wait: "throws env tr (Perform (WaitForTimeout 3000)) = None"
      and located: "fst (findTargetRow env missingHoursSelectors (WaitForTimeout 3000 # tr)) = Inr (Some row)"
      and toggled: "clickToggle env row (WaitForTimeout 3000 # tr) = (Inr True, tr2)"
  shows "handleFactorialTimeEntry_try env entry tr
           = io_then (clickAddButton env)
               (io_bind (fillFactorialPopup env entry) (\<lambda>fillResult.
                  if fillResult then verifySubmission env row fillResult
                  else io_return fillResult)) tr2"
proof -
  have w: "waitForTimeout env 3000 tr = (Inr (), WaitForTimeout 3000 # tr)"
    using wait by (simp add: waitForTimeout_def perform_def)
  have f: "findTargetRow env missingHoursSelectors (WaitForTimeout 3000 # tr)
             = (Inr (Some row), WaitForTimeout 3000 # tr)"
    using located readonly_result [OF readonly_findTargetRow] by metis
  show ?thesis
    unfolding handleFactorialTimeEntry_try_def
    by (simp add: io_then_def io_bind_def w f toggled)
qed

lemma verifySubmission_result:
  "fst (verifySubmission env (Some r) True tr)
     = Inr (\<not> (throws env tr (Perform (WaitForTimeout 2000)) = None
              \<and> throws env (WaitForTimeout 2000 # tr) (Evaluate ''stillHasMissingHours'' (Some r)) = None
              \<and> list_ex (\<lambda>(p, span). isMissingHoursText (textContent span))
                   (querySelectorAll_tag ''SPAN'' [] (held env (WaitForTimeout 2000 # tr) r))))"
  by (auto simp: verifySubmission_def io_catch_def io_then_def io_bind_def io_return_def
      waitForTimeout_def perform_def evaluate_held_def observe_def stillHasMissingHours_def
      split: option.splits)

text \<open>
  Claim C1 as stated fails. On the page below the day's row carries its \<open>-8h\<close> in a
  \<open>div\<close>, which the fourth selector \<open>[title="-8h"]\<close> matches; the locator selects the
  row, the popup is filled and submitted, \<open>fillFactorialPopup\<close> returns \<open>true\<close>, nothing
  changes in the row, and the workflow returns \<open>true\<close> with the text \<open>-8h\<close> still in
  the row.
\<close>

theorem verification_counterexample:
  "handleFactorialTimeEntry marker_in_div_page nine_to_five [] = (Inr True, submitted_history)
   \<and> fst (fillFactorialPopup marker_in_div_page nine_to_five added_history) = Inr True
   \<and> map_option textContent (node_at (dom marker_in_div_page submitted_history) h_row) = Some ''12-8h''
   \<and> textContent (held marker_in_div_page submitted_history h_row) = ''12-8h''"
  by code_simp

text \<open>
  Claim C1, amended. When the run has located a row, clicked its toggle and the add
  button, and \<open>fillFactorialPopup\<close> has returned \<open>true\<close>, \<open>handleFactorialTimeEntry\<close>
  returns \<open>false\<close> exactly when the wait and the re-read of the row succeed and some
  \<open>span\<close> element inside the row has a text containing both \<open>-\<close> and \<open>h\<close>; the row
  is the element the handle has held since it was located, as it is after the wait. In
  every other case the function returns \<open>true\<close>: when no span of the row has such a
  text, whatever else the row shows, and also when the wait or the re-read throws.
\<close>

theorem verification_after_submit:
  assumes wait: "throws env tr (Perform (WaitForTimeout 3000)) = None"
      and located: "fst (findTargetRow env missingHoursSelectors (WaitForTimeout 3000 # tr))
                      = Inr (Some (Some r))"
      and toggled: "clickToggle env (Some r) (WaitForTimeout 3000 # tr) = (Inr True, tr2)"
      and added: "clickAddButton env tr2 = (Inr (), tr3)"
      and filled: "fillFactorialPopup env entry tr3 = (Inr True, tr4)"
  shows "fst (handleFactorialTimeEntry env entry tr)
     = Inr (\<not> (throws env tr4 (Perform (WaitForTimeout 2000)) = None
              \<and> throws env (WaitForTimeout 2000 # tr4) (Evaluate ''stillHasMissingHours'' (Some r)) = None
              \<and> list_ex (\<lambda>(p, span). isMissingHoursText (textContent span))
                   (querySelectorAll_tag ''SPAN'' [] (held env (WaitForTimeout 2000 # tr4) r))))"
proof -
  have "handleFactorialTimeEntry_try env entry tr = verifySubmission env (Some r) True tr4"
    by (simp add: workflow_after_toggle [OF wait located toggled] io_then_def io_bind_def
        added filled)
  then have "fst (handleFactorialTimeEntry_try env entry tr)
     = Inr (\<not> (throws env tr4 (Perform (WaitForTimeout 2000)) = None
              \<and> throws env (WaitForTimeout 2000 # tr4) (Evaluate ''stillHasMissingHours'' (Some r)) = None
              \<and> list_ex (\<lambda>(p, span). isMissingHoursText (textContent span))
                   (querySelectorAll_tag ''SPAN'' [] (held env (WaitForTimeout 2000 # tr4) r))))"
    by (simp add: verifySubmission_result)
  then show ?thesis
    unfolding handleFactorialTimeEntry_def by (rule io_catch_fst_Inr)
qed

theorem verification_after_submit_witness:
  "fst (handleFactorialTimeEntry unchanged_page nine_to_five []) = Inr False
   \<and> fst (handleFactorialTimeEntry updated_page nine_to_five []) = Inr True
   \<and> fst (handleFactorialTimeEntry context_lost_page nine_to_five []) = Inr True
   \<and> textContent (held context_lost_page submitted_history h_row) = ''12-8h''"
proof -
  have w1: "throws unchanged_page [] (Perform (WaitForTimeout 3000)) = None"
    by (simp add: unchanged_page_def fixture_def)
  have l1: "fst (findTargetRow unchanged_page missingHoursSelectors [WaitForTimeout 3000])
              = Inr (Some (Some h_row))"
    by code_simp
  have t1: "clickToggle unchanged_page (Some h_row) [WaitForTimeout 3000] = (Inr True, toggled_history)"
    by code_simp
  have a1: "clickAddButton unchanged_page toggled_history = (Inr (), added_history)"
    by code_simp
  have f1: "fillFactorialPopup unchanged_page nine_to_five added_history
              = (Inr True, filled_history @ added_history)"
    by code_simp
  have v1: "(throws unchanged_page (filled_history @ added_history) (Perform (WaitForTimeout 2000)) = None
              \<and> throws unchanged_page (WaitForTimeout 2000 # filled_history @ added_history)
                   (Evaluate ''stillHasMissingHours'' (Some h_row)) = None
              \<and> list_ex (\<lambda>(p, span). isMissingHoursText (textContent span))
                   (querySelectorAll_tag ''SPAN'' []
                      (held unchanged_page (WaitForTimeout 2000 # filled_history @ added_history) h_row)))
            = True"
    by code_simp
  from verification_after_submit [OF w1 l1 t1 a1 f1] v1
  have r1: "fst (handleFactorialTimeEntry unchanged_page nine_to_five []) = Inr False"
    by simp
  have w2: "throws updated_page [] (Perform (WaitForTimeout 3000)) = None"
    by (simp add: updated_page_def fixture_def)
  have l2: "fst (findTargetRow updated_page missingHoursSelectors [WaitForTimeout 3000])
              = Inr (Some (Some h_row))"
    by code_simp
  have t2: "clickToggle updated_page (Some h_row) [WaitForTimeout 3000] = (Inr True, toggled_history)"
    by code_simp
  have a2: "clickAddButton updated_page toggled_history = (Inr (), added_history)"
    by code_simp
  have f2: "fillFactorialPopup updated_page nine_to_five added_history
              = (Inr True, filled_history @ added_history)"
    by code_simp
  have v2: "(throws updated_page (filled_history @ added_history) (Perform (WaitForTimeout 2000)) = None
              \<and> throws updated_page (WaitForTimeout 2000 # filled_history @ added_history)
                   (Evaluate ''stillHasMissingHours'' (Some h_row)) = None
              \<and> list_ex (\<lambda>(p, span). isMissingHoursText (textContent span))
                   (querySelectorAll_tag ''SPAN'' []
                      (held updated_page (WaitForTimeout 2000 # filled_history @ added_history) h_row)))
            = False"
    by code_simp
  from verification_after_submit [OF w2 l2 t2 a2 f2] v2
  have r2: "fst (handleFactorialTimeEntry updated_page nine_to_five []) = Inr True"
    by simp
  have w3: "throws context_lost_page [] (Perform (WaitForTimeout 3000)) = None"
    by (simp add: context_lost_page_def)
  have l3: "fst (findTargetRow context_lost_page missingHoursSelectors [WaitForTimeout 3000])
              = Inr (Some (Some h_row))"
    by code_simp
  have t3: "clickToggle context_lost_page (Some h_row) [WaitForTimeout 3000] = (Inr True, toggled_history)"
    by code_simp
  have a3: "clickAddButton context_lost_page toggled_history = (Inr (), added_history)"
    by code_simp
  have f3: "fillFactorialPopup context_lost_page nine_to_five added_history
              = (Inr True, filled_history @ added_history)"
    by code_simp
  have v3: "throws context_lost_page (WaitForTimeout 2000 # filled_history @ added_history)
              (Evaluate ''stillHasMissingHours'' (Some h_row)) \<noteq> None"
    by (simp add: context_lost_page_def)
  from verification_after_submit [OF w3 l3 t3 a3 f3] v3
  have r3: "fst (handleFactorialTimeEntry context_lost_page nine_to_five []) = Inr True"
    by simp
  have still: "textContent (held context_lost_page submitted_history h_row) = ''12-8h''"
    by code_simp
  from r1 r2 r3 still show ?thesis by simp
qed


subsection \<open>Filling the popup\<close>

lemma fillStartEnd_history:
  assumes "fillStartEnd env entry a b tr = (Inr r, tr')"
  shows "tr' = [WaitForTimeout 500, Fill b (endTime entry), Click b,
                WaitForTimeout 500, Fill a (startTime entry), Click a] @ tr"
  using assms unfolding fillStartEnd_def io_catch_rethrow click_def fill_def waitForTimeout_def
  by (elim io_then_InrE) (auto dest!: perform_InrD)

lemma queryAll_InrD: "queryAll env s tr = (Inr hs, tr1) \<Longrightarrow> tr1 = tr \<and> hs = query_all env tr s"
  by (auto simp: queryAll_def dest: observe_InrD)

lemma fillTimes_history:
  assumes two: \<open>query_all env tr ''input[type="time"]'' = a # b # others\<close>
      and run: "fillTimes env entry tr = (Inr r, tr')"
  shows "tr' = [WaitForTimeout 500, Fill b (endTime entry), Click b,
                WaitForTimeout 500, Fill a (startTime entry), Click a] @ tr"
proof -
  from run obtain timeInputs allInputs tr1 tr2
    where q1: \<open>queryAll env ''input[type="time"]'' tr = (Inr timeInputs, tr1)\<close>
      and q2: \<open>queryAll env ''input'' tr1 = (Inr allInputs, tr2)\<close>
      and rest: "(case timeInputs of
         t0 # t1 # ts \<Rightarrow> fillStartEnd env entry t0 t1
       | _ \<Rightarrow> (case allInputs of
                 a0 # a1 # as \<Rightarrow> fillStartEnd env entry a0 a1
               | _ \<Rightarrow> io_bind (fillBySelectors env startTimeSelectors (startTime entry)) (\<lambda>startFilled.
                       io_bind (fillBySelectors env endTimeSelectors (endTime entry)) (\<lambda>endFilled.
                         io_return ())))) tr2 = (Inr r, tr')"
    unfolding fillTimes_def by (elim io_bind_InrE) blast
  from queryAll_InrD [OF q1] two have t: "tr1 = tr" "timeInputs = a # b # others" by simp_all
  from queryAll_InrD [OF q2] t have "tr2 = tr" by simp
  with rest t have "fillStartEnd env entry a b tr = (Inr r, tr')" by simp
  then show ?thesis by (rule fillStartEnd_history)
qed

lemma assignApplyButton_readonly: "readonly (assignApplyButton env selectors b)"
  by (induction selectors arbitrary: b) (auto simp: tryApplySelector_def split: option.split)

lemma findButtonByText_readonly: "readonly (findButtonByText env w)"
  by (auto simp: findButtonByText_def intro!: readonly_for_first)

lemma findApplyButton_readonly: "readonly (findApplyButton env)"
  by (auto simp: findApplyButton_def intro!: assignApplyButton_readonly findButtonByText_readonly
      split: option.split)

lemma submitPopup_history:
  assumes "submitPopup env tr = (Inr r, tr')"
  shows "\<exists>b. tr' = WaitForTimeout 3000 # Click b # tr"
proof -
  from assms obtain b tr1 tr2 tr3 u tr4 ind
    where f: "findApplyButton env tr = (Inr b, tr1)"
      and c: "click env b tr1 = (Inr (), tr2)"
      and w: "waitForTimeout env 3000 tr2 = (Inr (), tr3)"
      and pu: "page_url env tr3 = (Inr u, tr4)"
      and q: \<open>queryAll env ''.success, [data-testid="success"], .notification-success'' tr4 = (Inr ind, tr')\<close>
    unfolding submitPopup_def
    by (elim io_bind_InrE io_then_InrE) (auto simp: io_return_def split: if_splits)
  from f have "tr1 = tr"
    using findApplyButton_readonly by (metis readonly_def snd_conv)
  moreover from c have "tr2 = Click b # tr1" by (auto simp: click_def dest: perform_InrD)
  moreover from w have "tr3 = WaitForTimeout 3000 # tr2"
    by (auto simp: waitForTimeout_def dest: perform_InrD)
  moreover from pu have "tr4 = tr3" by (simp add: page_url_def)
  moreover from queryAll_InrD [OF q] have "tr' = tr4" by simp
  ultimately show ?thesis by simp
qed









subsection \<open>Lower case\<close>

lemma str_includes_iff: "str_includes s n \<longleftrightarrow> (\<exists>p q. s = p @ n @ q)"
proof (induction s)
  case Nil
  then show ?case by auto
next
  case (Cons c cs)
  show ?case
  proof
    assume "str_includes (c # cs) n"
    then consider "startsWith (c # cs) n" | "str_includes cs n" by auto
    then show "\<exists>p q. c # cs = p @ n @ q"
    proof cases
      case 1
      then have "c # cs = [] @ n @ drop (length n) (c # cs)"
        unfolding startsWith_def by (metis append_Nil append_take_drop_id)
      then show ?thesis by blast
    next
      case 2
      with Cons.IH obtain p q where "cs = p @ n @ q" by blast
      then have "c # cs = (c # p) @ n @ q" by simp
      then show ?thesis by blast
    qed
  next
    assume "\<exists>p q. c # cs = p @ n @ q"
    then obtain p q where pq: "c # cs = p @ n @ q" by blast
    show "str_includes (c # cs) n"
    proof (cases p)
      case Nil
      with pq have "startsWith (c # cs) n" by (simp add: startsWith_def)
      then show ?thesis by simp
    next
      case (Cons x p')
      with pq have "cs = p' @ n @ q" by simp
      with Cons.IH show ?thesis by auto
    qed
  qed
qed

lemma lower_char_high: "128 \<le> (of_char (lower_char c) :: nat) \<Longrightarrow> lower_char c = c"
  by (auto simp: lower_char_def Let_def)

lemma toLowerCase_hd: "toLowerCase (d # cs) = x # xs \<Longrightarrow> x = lower_char d"
  by (cases cs) (auto simp: lower_char_def Let_def split: if_splits)

lemma raised_capital:
  assumes "is_latin1_capital d"
  shows "char_of ((of_char d :: nat) + 32) \<noteq> CHR 0x83" "char_of ((of_char d :: nat) + 32) \<noteq> CHR 0xC3"
proof -
  from assms have r: "0x80 \<le> (of_char d :: nat)" "(of_char d :: nat) \<le> 0x9E"
    by (simp_all add: is_latin1_capital_def Let_def)
  then have v: "(of_char (char_of ((of_char d :: nat) + 32) :: char) :: nat) = of_char d + 32"
    by simp
  show "char_of ((of_char d :: nat) + 32) \<noteq> CHR 0x83"
  proof
    assume "char_of ((of_char d :: nat) + 32) = CHR 0x83"
    then have "(of_char (char_of ((of_char d :: nat) + 32) :: char) :: nat) = of_char (CHR 0x83)"
      by (rule arg_cong)
    with v r show False by simp
  qed
  show "char_of ((of_char d :: nat) + 32) \<noteq> CHR 0xC3"
  proof
    assume "char_of ((of_char d :: nat) + 32) = CHR 0xC3"
    then have "(of_char (char_of ((of_char d :: nat) + 32) :: char) :: nat) = of_char (CHR 0xC3)"
      by (rule arg_cong)
    with v r show False by simp
  qed
qed

lemma toLowerCase_no_capital_A_tilde:
  "toLowerCase t \<noteq> p @ [CHR 0xC3, CHR 0x83] @ q"
proof (induction t arbitrary: p rule: toLowerCase.induct)
  case 1
  then show ?case by simp
next
  case (2 c)
  then show ?case by (cases p) auto
next
  case (3 c d cs)
  show ?case
  proof (cases "c = CHR 0xC3 \<and> is_latin1_capital d")
    case True
    then have out: "toLowerCase (c # d # cs) = c # char_of ((of_char d :: nat) + 32) # toLowerCase cs"
      by simp
    from True have cap: "is_latin1_capital d" by simp
    show ?thesis
    proof
      assume eq: "toLowerCase (c # d # cs) = p @ [CHR 0xC3, CHR 0x83] @ q"
      show False
      proof (cases p)
        case Nil
        with eq out raised_capital(1) [OF cap] show False by simp
      next
        case (Cons x p')
        show False
        proof (cases p')
          case Nil
          with Cons eq out raised_capital(2) [OF cap] show False by simp
        next
          case (Cons y p'')
          with \<open>p = x # p'\<close> eq out have "toLowerCase cs = p'' @ [CHR 0xC3, CHR 0x83] @ q" by simp
          with 3(1) [OF True] show False by blast
        qed
      qed
    qed
  next
    case False
    then have out: "toLowerCase (c # d # cs) = lower_char c # toLowerCase (d # cs)" by auto
    show ?thesis
    proof
      assume eq: "toLowerCase (c # d # cs) = p @ [CHR 0xC3, CHR 0x83] @ q"
      show False
      proof (cases p)
        case Nil
        with eq out have c: "lower_char c = CHR 0xC3" and rest: "toLowerCase (d # cs) = CHR 0x83 # q"
          by simp_all
        from c have "c = CHR 0xC3" using lower_char_high [of c] by simp
        moreover from toLowerCase_hd [OF rest] have "lower_char d = CHR 0x83" by simp
        then have "d = CHR 0x83" using lower_char_high [of d] by simp
        then have "is_latin1_capital d" by (simp add: is_latin1_capital_def)
        ultimately show False using False by simp
      next
        case (Cons x p')
        with eq out have "toLowerCase (d # cs) = p' @ [CHR 0xC3, CHR 0x83] @ q" by simp
        with 3(2) [OF False] show False by blast
      qed
    qed
  qed
qed

lemma add_word_never_in_lower_case:
  "\<not> str_includes (toLowerCase t) (''a'' @ n_tilde_as_written @ ''adir'')"
proof
  assume "str_includes (toLowerCase t) (''a'' @ n_tilde_as_written @ ''adir'')"
  then obtain p q where "toLowerCase t = p @ (''a'' @ n_tilde_as_written @ ''adir'') @ q"
    unfolding str_includes_iff by blast
  then have "toLowerCase t = (p @ ''a'') @ [CHR 0xC3, CHR 0x83] @ ([CHR 0xC2, CHR 0xB1] @ ''adir'' @ q)"
    by (simp add: n_tilde_as_written_def)
  then show False using toLowerCase_no_capital_A_tilde by blast
qed

subsection \<open>Lookups that find nothing\<close>

lemma waitForSelector_none:
  assumes "appears env tr s t = None"
  shows "\<exists>tr1. io_catch (io_bind (waitForSelector env s t) (\<lambda>h. io_return (Some h)))
                  (\<lambda>e. io_return None) tr = (Inr None, tr1)"
  using assms
  by (auto simp: io_catch_def io_bind_def io_return_def waitForSelector_def split: option.splits)

lemma waitForAny_none:
  assumes "\<forall>s \<in> set selectors. \<forall>tr'. appears env tr' s t = None"
  shows "fst (waitForAny env t selectors tr) = Inr None"
  using assms
proof (induction selectors arbitrary: tr)
  case Nil
  then show ?case by (simp add: waitForAny_def io_return_def)
next
  case (Cons s rest)
  from Cons.prems have "appears env tr s t = None" by simp
  from waitForSelector_none [OF this] obtain tr1
    where step: "io_catch (io_bind (waitForSelector env s t) (\<lambda>h. io_return (Some h)))
                  (\<lambda>e. io_return None) tr = (Inr None, tr1)" by blast
  from Cons have "fst (waitForAny env t rest tr1) = Inr None" by simp
  with step show ?case by (simp add: waitForAny_def io_bind_def)
qed

lemma findPasswordInput_none:
  assumes "\<forall>s \<in> set passwordSelectors. \<forall>tr'. appears env tr' s 2000 = None"
  shows "fst (findPasswordInput env tr) = Inl (Error ''Could not find password input field'')"
proof -
  obtain tr1 where "waitForAny env 2000 passwordSelectors tr = (Inr None, tr1)"
    using waitForAny_none [OF assms, of tr] by (cases "waitForAny env 2000 passwordSelectors tr") simp
  then show ?thesis by (simp add: findPasswordInput_def io_bind_def io_throw_def)
qed

lemma isLoggedIn_returns: "\<exists>b tr'. isLoggedIn env a tr = (Inr b, tr')"
proof (cases "has_page a")
  case False
  then show ?thesis by (auto simp: isLoggedIn_def io_return_def)
next
  case True
  then show ?thesis
    unfolding isLoggedIn_def using io_catch_total by auto
qed

lemma findEmailInput_none:
  assumes "\<forall>s \<in> set emailSelectors. \<forall>tr'. appears env tr' s 5000 = None"
  shows "fst (findEmailInput env a tr)
           = (if fst (isLoggedIn env a (snd (waitForAny env 5000 emailSelectors tr))) = Inr True
              then Inr None
              else Inl (Error ''Could not find email input field. The page structure might have changed.''))"
proof -
  obtain tr1 where w: "waitForAny env 5000 emailSelectors tr = (Inr None, tr1)"
    using waitForAny_none [OF assms, of tr] by (cases "waitForAny env 5000 emailSelectors tr") simp
  obtain b tr2 where l: "isLoggedIn env a tr1 = (Inr b, tr2)"
    using isLoggedIn_returns by blast
  from w l show ?thesis
    by (simp add: findEmailInput_def io_bind_def io_throw_def io_return_def)
qed

lemma for_first_none:
  assumes "\<forall>x \<in> set xs. body x tr = (Inr None, tr) \<or> (\<exists>e. body x tr = (Inl e, tr))"
  shows "for_first body xs tr = (Inr None, tr)"
  using assms
proof (induction xs)
  case Nil
  then show ?case by (simp add: io_return_def)
next
  case (Cons x xs)
  from Cons.prems have "io_catch (body x) (\<lambda>e. io_return None) tr = (Inr None, tr)"
    by (auto simp: io_catch_def io_return_def)
  moreover from Cons have "for_first body xs tr = (Inr None, tr)" by simp
  ultimately show ?case by (simp add: io_bind_def)
qed

lemma findButtonByText_none:
  assumes nothrow: "throws env tr (QueryAll ''button'') = None"
      and texts: "\<forall>b \<in> set (query_all env tr ''button''). \<forall>text.
                    fst (getTextContent env b tr) = Inr text
                      \<longrightarrow> \<not> str_includes (toLowerCase (trim text)) word"
  shows "findButtonByText env word tr = (Inr None, tr)"
proof -
  let ?body = "\<lambda>button. io_bind (getTextContent env button) (\<lambda>text.
            io_return (if text \<noteq> [] \<and> str_includes (toLowerCase (trim text)) word
                       then Some button else None))"
  have "\<forall>b \<in> set (query_all env tr ''button'').
          ?body b tr = (Inr None, tr) \<or> (\<exists>e. ?body b tr = (Inl e, tr))"
  proof
    fix b assume b: "b \<in> set (query_all env tr ''button'')"
    have g: "getTextContent env b tr = (fst (getTextContent env b tr), tr)"
      by (rule readonly_result) simp
    show "?body b tr = (Inr None, tr) \<or> (\<exists>e. ?body b tr = (Inl e, tr))"
    proof (cases "fst (getTextContent env b tr)")
      case (Inl e)
      with g have "getTextContent env b tr = (Inl e, tr)" by simp
      then show ?thesis by (simp add: io_bind_def)
    next
      case (Inr content)
      with texts b have "\<not> str_includes (toLowerCase (trim content)) word" by blast
      moreover from Inr g have "getTextContent env b tr = (Inr content, tr)" by simp
      ultimately show ?thesis by (simp add: io_bind_def io_return_def)
    qed
  qed
  then have "for_first ?body (query_all env tr ''button'') tr = (Inr None, tr)"
    by (rule for_first_none)
  then show ?thesis
    using nothrow by (simp add: findButtonByText_def io_bind_def queryAll_def observe_def)
qed

lemma findAddButton_none:
  assumes "\<forall>s \<in> set addButtonSelectors. \<forall>tr'. appears env tr' s 5000 = None"
      and "\<forall>tr'. throws env tr' (QueryAll ''button'') = None"
  shows \<open>fst (findAddButton env tr)
           = Inl (Error (''Could not find "A'' @ n_tilde_as_written @ ''adir" button after clicking toggle''))\<close>
proof -
  obtain tr1 where w: "waitForAny env 5000 addButtonSelectors tr = (Inr None, tr1)"
    using waitForAny_none [OF assms(1), of tr]
    by (cases "waitForAny env 5000 addButtonSelectors tr") simp
  have "findButtonByText env (''a'' @ n_tilde_as_written @ ''adir'') tr1 = (Inr None, tr1)"
  proof (rule findButtonByText_none)
    show "throws env tr1 (QueryAll ''button'') = None" using assms(2) by simp
    show "\<forall>b \<in> set (query_all env tr1 ''button''). \<forall>text.
            fst (getTextContent env b tr1) = Inr text
              \<longrightarrow> \<not> str_includes (toLowerCase (trim text)) (''a'' @ n_tilde_as_written @ ''adir'')"
      using add_word_never_in_lower_case by blast
  qed
  with w show ?thesis by (simp add: findAddButton_def io_bind_def io_throw_def)
qed


lemma queryOne_none:
  assumes "query_all env tr s = []"
  shows "queryOne env s tr = (Inr None, tr) \<or> (\<exists>e. queryOne env s tr = (Inl e, tr))"
  using assms by (auto simp: queryOne_def observe_def split: option.splits)

lemma tryApplySelector_none:
  assumes "query_all env tr s = []"
  shows "tryApplySelector env s None tr = (Inr (None, False), tr)"
  using queryOne_none [OF assms]
  by (auto simp: tryApplySelector_def io_catch_def io_bind_def io_return_def)

lemma assignApplyButton_none:
  assumes "\<forall>s \<in> set selectors. query_all env tr s = []"
  shows "assignApplyButton env selectors None tr = (Inr None, tr)"
  using assms
  by (induction selectors) (simp_all add: io_return_def io_bind_def tryApplySelector_none)

lemma findApplyButton_none:
  assumes "\<forall>s \<in> set applyButtonSelectors. query_all env tr s = []"
      and "throws env tr (QueryAll ''button'') = None"
      and "\<forall>b \<in> set (query_all env tr ''button''). \<forall>text.
                    fst (getTextContent env b tr) = Inr text
                      \<longrightarrow> \<not> str_includes (toLowerCase (trim text)) ''aplicar''"
  shows \<open>findApplyButton env tr
           = (Inl (Error ''Could not find "Aplicar" button to submit the form''), tr)\<close>
  using assignApplyButton_none [OF assms(1)] findButtonByText_none [OF assms(2,3)]
  by (simp add: findApplyButton_def io_bind_def io_throw_def)


lemma for_each_until_none:
  assumes "\<forall>x \<in> set xs. body x tr = (Inr False, tr) \<or> (\<exists>e. body x tr = (Inl e, tr))"
  shows "for_each_until body xs tr = (Inr False, tr)"
  using assms
proof (induction xs)
  case Nil
  then show ?case by (simp add: io_return_def)
next
  case (Cons x xs)
  from Cons.prems have "io_catch (body x) (\<lambda>e. io_return False) tr = (Inr False, tr)"
    by (auto simp: io_catch_def io_return_def)
  moreover from Cons have "for_each_until body xs tr = (Inr False, tr)" by simp
  ultimately show ?case by (simp add: io_bind_def)
qed

lemma fillIfVisible_none:
  assumes "query_all env tr s = []"
  shows "fillIfVisible env v s tr = (Inr False, tr) \<or> (\<exists>e. fillIfVisible env v s tr = (Inl e, tr))"
  using queryOne_none [OF assms]
  by (auto simp: fillIfVisible_def io_bind_def io_return_def)

lemma fillBySelectors_none:
  assumes "\<forall>s \<in> set selectors. query_all env tr s = []"
  shows "fillBySelectors env selectors v tr = (Inr False, tr)"
  unfolding fillBySelectors_def
  using assms by (intro for_each_until_none) (simp add: fillIfVisible_none)

lemma fillTimes_none:
  assumes start: "\<forall>s \<in> set startTimeSelectors. query_all env tr s = []"
      and "end": "\<forall>s \<in> set endTimeSelectors. query_all env tr s = []"
      and inputs: \<open>query_all env tr ''input[type="time"]'' = []\<close> "query_all env tr ''input'' = []"
      and nothrow: \<open>throws env tr (QueryAll ''input[type="time"]'') = None\<close>
                   "throws env tr (QueryAll ''input'') = None"
  shows "fillTimes env entry tr = (Inr (), tr)"
  using inputs nothrow fillBySelectors_none [OF start] fillBySelectors_none [OF "end"]
  by (simp add: fillTimes_def io_bind_def queryAll_def observe_def io_return_def)

lemma login_without_email:
  assumes page: "has_page a"
      and nav: "navigateToLogin env cfg maxAttempts tr = (Inr (), tr1)"
      and none: "\<forall>s \<in> set emailSelectors. \<forall>tr'. appears env tr' s 5000 = None"
  shows "fst (login env cfg a tr)
        = (if fst (isLoggedIn env a (snd (waitForAny env 5000 emailSelectors tr1))) = Inr True
           then Inr True
           else Inl (Error ''Could not find email input field. The page structure might have changed.''))"
proof -
  obtain x tr2 where f: "findEmailInput env a tr1 = (x, tr2)"
    by (cases "findEmailInput env a tr1")
  with findEmailInput_none [OF none, of a tr1]
  have x: "x = (if fst (isLoggedIn env a (snd (waitForAny env 5000 emailSelectors tr1))) = Inr True
              then Inr None
              else Inl (Error ''Could not find email input field. The page structure might have changed.''))"
    by simp
  show ?thesis
    using page x
    by (simp add: login_def io_then_def io_bind_def nav f io_return_def)
qed

lemma login_without_password:
  assumes page: "has_page a"
      and nav: "navigateToLogin env cfg maxAttempts tr = (Inr (), tr1)"
      and email: "findEmailInput env a tr1 = (Inr (Some emailInput), tr2)"
      and filled: "throws env tr2 (Perform (Fill emailInput (factorial_email cfg))) = None"
      and none: "\<forall>s \<in> set passwordSelectors. \<forall>tr'. appears env tr' s 2000 = None"
  shows "fst (login env cfg a tr) = Inl (Error ''Could not find password input field'')"
proof -
  let ?tr3 = "Fill emailInput (factorial_email cfg) # tr2"
  have fl: "fill env emailInput (factorial_email cfg) tr2 = (Inr (), ?tr3)"
    using filled by (simp add: fill_def perform_def)
  obtain tr4 where p: "findPasswordInput env ?tr3
                        = (Inl (Error ''Could not find password input field''), tr4)"
    using findPasswordInput_none [OF none, of ?tr3]
    by (cases "findPasswordInput env ?tr3") simp
  show ?thesis
    using page
    by (simp add: login_def io_then_def io_bind_def nav email fl p)
qed

lemma workflow_without_add_button:
  assumes wait: "throws env tr (Perform (WaitForTimeout 3000)) = None"
      and located: "fst (findTargetRow env missingHoursSelectors (WaitForTimeout 3000 # tr)) = Inr (Some row)"
      and toggled: "clickToggle env row (WaitForTimeout 3000 # tr) = (Inr True, tr2)"
      and none: "fst (findAddButton env tr2) = Inl e"
  shows "fst (handleFactorialTimeEntry env entry tr) = Inr False"
proof -
  from none have "fst (clickAddButton env tr2) = Inl e"
    unfolding clickAddButton_def by (rule io_bind_throws)
  then have "fst (handleFactorialTimeEntry_try env entry tr) = Inl e"
    unfolding workflow_after_toggle [OF wait located toggled] by (rule io_then_throws)
  then show ?thesis
    unfolding handleFactorialTimeEntry_def by (rule io_catch_False_on_throw)
qed

lemma popup_without_apply_button:
  assumes "io_then (setWorkType env) (fillTimes env entry) tr = (Inr (), tr2)"
      and "findApplyButton env tr2 = (Inl e, tr2)"
  shows "fillFactorialPopup env entry tr = (Inr False, tr2)"
proof -
  from assms(1) obtain tr1 where "setWorkType env tr = (Inr (), tr1)" "fillTimes env entry tr1 = (Inr (), tr2)"
    by (elim io_then_InrE) auto
  with assms(2) show ?thesis
    by (simp add: fillFactorialPopup_def io_catch_def io_then_def io_bind_def submitPopup_def
        io_return_def)
qed

text \<open>
  Claim C5 as stated fails for the start and end time inputs. On the page below the
  popup has no input at all, so neither \<open>input[type="time"]\<close> nor \<open>input\<close> nor any of
  the start and end selectors matches; \<open>fillFactorialPopup\<close> raises no error, clicks
  the apply button without having filled anything, and returns \<open>true\<close>.
\<close>

theorem lookup_counterexample:
  \<open>map (query_all no_inputs_page [])
       (''input[type="time"]'' # ''input'' # startTimeSelectors @ endTimeSelectors)
     = [[], [], [], [], [], [], [], [], [], []]
   \<and> fillFactorialPopup no_inputs_page nine_to_five [] = (Inr True, [WaitForTimeout 3000, Click h_apply])\<close>
  by code_simp

text \<open>
  Claim C5, amended. When none of its selectors finds an element, each lookup ends after
  its list. Without an email input \<open>login\<close> throws "Could not find email input field.
  The page structure might have changed." unless \<open>isLoggedIn()\<close> holds, in which case
  it returns \<open>true\<close>. Without a password input \<open>login\<close> throws "Could not find password
  input field". The lookup of the add button throws its "Could not find ... button after
  clicking toggle", whatever buttons the page has (its scan by text looks in lower-cased
  texts for a word that holds a capital letter), and \<open>handleFactorialTimeEntry\<close>
  returns \<open>false\<close>. The lookup of the apply button throws "Could not find "Aplicar"
  button to submit the form" when no button has a text with \<open>aplicar\<close> in it either,
  and \<open>fillFactorialPopup\<close> returns \<open>false\<close>. The lookup of the start and end time
  inputs raises no error: it returns normally, leaving a warning in the log, and the
  submit follows.
\<close>

theorem lookups_exhausted:
  \<open>(has_page a \<and> navigateToLogin env cfg maxAttempts tr = (Inr (), tr1)
      \<and> (\<forall>s \<in> set emailSelectors. \<forall>tr'. appears env tr' s 5000 = None) \<longrightarrow>
      fst (login env cfg a tr)
        = (if fst (isLoggedIn env a (snd (waitForAny env 5000 emailSelectors tr1))) = Inr True
           then Inr True
           else Inl (Error ''Could not find email input field. The page structure might have changed.'')))
   \<and> (has_page a \<and> navigateToLogin env cfg maxAttempts tr = (Inr (), tr1)
      \<and> findEmailInput env a tr1 = (Inr (Some emailInput), tr2)
      \<and> throws env tr2 (Perform (Fill emailInput (factorial_email cfg))) = None
      \<and> (\<forall>s \<in> set passwordSelectors. \<forall>tr'. appears env tr' s 2000 = None) \<longrightarrow>
      fst (login env cfg a tr) = Inl (Error ''Could not find password input field''))
   \<and> (throws env tr (Perform (WaitForTimeout 3000)) = None
      \<and> fst (findTargetRow env missingHoursSelectors (WaitForTimeout 3000 # tr)) = Inr (Some row)
      \<and> clickToggle env row (WaitForTimeout 3000 # tr) = (Inr True, tr2)
      \<and> (\<forall>s \<in> set addButtonSelectors. \<forall>tr'. appears env tr' s 5000 = None)
      \<and> (\<forall>tr'. throws env tr' (QueryAll ''button'') = None) \<longrightarrow>
      fst (findAddButton env tr2)
        = Inl (Error (''Could not find "A'' @ n_tilde_as_written @ ''adir" button after clicking toggle''))
      \<and> fst (handleFactorialTimeEntry env entry tr) = Inr False)
   \<and> (io_then (setWorkType env) (fillTimes env entry) tr = (Inr (), tr2)
      \<and> (\<forall>s \<in> set applyButtonSelectors. query_all env tr2 s = [])
      \<and> throws env tr2 (QueryAll ''button'') = None
      \<and> (\<forall>b \<in> set (query_all env tr2 ''button''). \<forall>text.
            fst (getTextContent env b tr2) = Inr text
              \<longrightarrow> \<not> str_includes (toLowerCase (trim text)) ''aplicar'') \<longrightarrow>
      findApplyButton env tr2
        = (Inl (Error ''Could not find "Aplicar" button to submit the form''), tr2)
      \<and> fillFactorialPopup env entry tr = (Inr False, tr2))
   \<and> ((\<forall>s \<in> set (''input[type="time"]'' # ''input'' # startTimeSelectors @ endTimeSelectors).
          query_all env tr s = [])
        \<and> throws env tr (QueryAll ''input[type="time"]'') = None
        \<and> throws env tr (QueryAll ''input'') = None \<longrightarrow>
      fillTimes env entry tr = (Inr (), tr))\<close>
proof (intro conjI impI)
  assume "has_page a \<and> navigateToLogin env cfg maxAttempts tr = (Inr (), tr1)
      \<and> (\<forall>s \<in> set emailSelectors. \<forall>tr'. appears env tr' s 5000 = None)"
  then show "fst (login env cfg a tr)
        = (if fst (isLoggedIn env a (snd (waitForAny env 5000 emailSelectors tr1))) = Inr True
           then Inr True
           else Inl (Error ''Could not find email input field. The page structure might have changed.''))"
    by (intro login_without_email) simp_all
next
  assume "has_page a \<and> navigateToLogin env cfg maxAttempts tr = (Inr (), tr1)
      \<and> findEmailInput env a tr1 = (Inr (Some emailInput), tr2)
      \<and> throws env tr2 (Perform (Fill emailInput (factorial_email cfg))) = None
      \<and> (\<forall>s \<in> set passwordSelectors. \<forall>tr'. appears env tr' s 2000 = None)"
  then show "fst (login env cfg a tr) = Inl (Error ''Could not find password input field'')"
    by (intro login_without_password [where emailInput = emailInput and ?tr1.0 = tr1 and ?tr2.0 = tr2])
       simp_all
next
  assume h: "throws env tr (Perform (WaitForTimeout 3000)) = None
      \<and> fst (findTargetRow env missingHoursSelectors (WaitForTimeout 3000 # tr)) = Inr (Some row)
      \<and> clickToggle env row (WaitForTimeout 3000 # tr) = (Inr True, tr2)
      \<and> (\<forall>s \<in> set addButtonSelectors. \<forall>tr'. appears env tr' s 5000 = None)
      \<and> (\<forall>tr'. throws env tr' (QueryAll ''button'') = None)"
  then show none: \<open>fst (findAddButton env tr2)
        = Inl (Error (''Could not find "A'' @ n_tilde_as_written @ ''adir" button after clicking toggle''))\<close>
    by (intro findAddButton_none) simp_all
  from h show "fst (handleFactorialTimeEntry env entry tr) = Inr False"
    by (intro workflow_without_add_button [OF _ _ _ none, where row = row]) simp_all
next
  assume h: \<open>io_then (setWorkType env) (fillTimes env entry) tr = (Inr (), tr2)
      \<and> (\<forall>s \<in> set applyButtonSelectors. query_all env tr2 s = [])
      \<and> throws env tr2 (QueryAll ''button'') = None
      \<and> (\<forall>b \<in> set (query_all env tr2 ''button''). \<forall>text.
            fst (getTextContent env b tr2) = Inr text
              \<longrightarrow> \<not> str_includes (toLowerCase (trim text)) ''aplicar'')\<close>
  then show none: \<open>findApplyButton env tr2
        = (Inl (Error ''Could not find "Aplicar" button to submit the form''), tr2)\<close>
    by (intro findApplyButton_none) simp_all
  from h show "fillFactorialPopup env entry tr = (Inr False, tr2)"
    by (intro popup_without_apply_button [OF _ none]) simp
next
  assume \<open>(\<forall>s \<in> set (''input[type="time"]'' # ''input'' # startTimeSelectors @ endTimeSelectors).
          query_all env tr s = [])
        \<and> throws env tr (QueryAll ''input[type="time"]'') = None
        \<and> throws env tr (QueryAll ''input'') = None\<close>
  then show "fillTimes env entry tr = (Inr (), tr)"
    by (intro fillTimes_none) simp_all
qed

theorem lookups_exhausted_witness:
  \<open>fst (login all_logged_page credentials initialized []) = Inr True
   \<and> fst (login empty_page credentials initialized [])
       = Inl (Error ''Could not find email input field. The page structure might have changed.'')
   \<and> fst (login email_only_page credentials initialized [])
       = Inl (Error ''Could not find password input field'')
   \<and> query_all spanish_page toggled_history ''button'' = [h_toggle, h_add, h_apply]
   \<and> fst (findAddButton spanish_page toggled_history)
       = Inl (Error (''Could not find "A'' @ n_tilde_as_written @ ''adir" button after clicking toggle''))
   \<and> fst (handleFactorialTimeEntry spanish_page nine_to_five []) = Inr False
   \<and> query_all no_apply_page times_history ''button'' = [h_toggle, h_add, h_apply]
   \<and> findApplyButton no_apply_page times_history
       = (Inl (Error ''Could not find "Aplicar" button to submit the form''), times_history)
   \<and> fillFactorialPopup no_apply_page nine_to_five [] = (Inr False, times_history)
   \<and> fillTimes no_inputs_page nine_to_five [] = (Inr (), [])\<close>
proof -
  have page: "has_page initialized" by (simp add: initialized_def)
  have nav1: "navigateToLogin all_logged_page credentials maxAttempts [] = (Inr (), login_opened_history)"
    by code_simp
  have none1: "\<forall>s \<in> set emailSelectors. \<forall>tr'. appears all_logged_page tr' s 5000 = None"
    by (simp add: all_logged_page_def fixture_def add_appearing_def emailSelectors_def
        n_tilde_as_written_def)
  have in1: "fst (isLoggedIn all_logged_page initialized
                    (snd (waitForAny all_logged_page 5000 emailSelectors login_opened_history))) = Inr True"
    by code_simp
  from lookups_exhausted [where env = all_logged_page and a = initialized and cfg = credentials
      and tr = "[]" and ?tr1.0 = login_opened_history] page nav1 none1 in1
  have a: "fst (login all_logged_page credentials initialized []) = Inr True"
    by simp
  have nav2: "navigateToLogin empty_page credentials maxAttempts [] = (Inr (), login_opened_history)"
    by code_simp
  have none2: "\<forall>s \<in> set emailSelectors. \<forall>tr'. appears empty_page tr' s 5000 = None"
    by (simp add: empty_page_def fixture_def)
  have in2: "fst (isLoggedIn empty_page initialized
                    (snd (waitForAny empty_page 5000 emailSelectors login_opened_history))) \<noteq> Inr True"
    by code_simp
  from lookups_exhausted [where env = empty_page and a = initialized and cfg = credentials
      and tr = "[]" and ?tr1.0 = login_opened_history] page nav2 none2 in2
  have b: "fst (login empty_page credentials initialized [])
       = Inl (Error ''Could not find email input field. The page structure might have changed.'')"
    by simp
  have nav3: "navigateToLogin email_only_page credentials maxAttempts [] = (Inr (), login_opened_history)"
    by code_simp
  have email3: \<open>findEmailInput email_only_page initialized login_opened_history
                  = (Inr (Some [0]), WaitedForSelector ''input[type="email"]'' 5000 # login_opened_history)\<close>
    by code_simp
  have nothrow3: "\<And>tr' c. throws email_only_page tr' c = None"
    by (simp add: email_only_page_def fixture_def)
  have none3: "\<forall>s \<in> set passwordSelectors. \<forall>tr'. appears email_only_page tr' s 2000 = None"
    by (simp add: email_only_page_def fixture_def passwordSelectors_def)
  from lookups_exhausted [where env = email_only_page and a = initialized and cfg = credentials
      and tr = "[]" and ?tr1.0 = login_opened_history and emailInput = "[0]"
      and ?tr2.0 = \<open>WaitedForSelector ''input[type="email"]'' 5000 # login_opened_history\<close>]
    page nav3 email3 nothrow3 none3
  have c: "fst (login email_only_page credentials initialized [])
       = Inl (Error ''Could not find password input field'')"
    by simp
  have nothrow4: "\<And>tr' c. throws spanish_page tr' c = None"
    by (simp add: spanish_page_def fixture_def)
  have located4: "fst (findTargetRow spanish_page missingHoursSelectors [WaitForTimeout 3000])
                    = Inr (Some (Some h_row))"
    by code_simp
  have toggled4: "clickToggle spanish_page (Some h_row) [WaitForTimeout 3000] = (Inr True, toggled_history)"
    by code_simp
  have none4: "\<forall>s \<in> set addButtonSelectors. \<forall>tr'. appears spanish_page tr' s 5000 = None"
    by (simp add: spanish_page_def fixture_def)
  have buttons4: "query_all spanish_page toggled_history ''button'' = [h_toggle, h_add, h_apply]"
    by code_simp
  from lookups_exhausted [where env = spanish_page and tr = "[]" and row = "Some h_row"
      and ?tr2.0 = toggled_history and entry = nine_to_five]
    nothrow4 located4 toggled4 none4
  have d: \<open>fst (findAddButton spanish_page toggled_history)
       = Inl (Error (''Could not find "A'' @ n_tilde_as_written @ ''adir" button after clicking toggle''))
     \<and> fst (handleFactorialTimeEntry spanish_page nine_to_five []) = Inr False\<close>
    by simp
  have filled5: "io_then (setWorkType no_apply_page) (fillTimes no_apply_page nine_to_five) []
                   = (Inr (), times_history)"
    by code_simp
  have none5: "\<forall>s \<in> set applyButtonSelectors. query_all no_apply_page times_history s = []"
    by code_simp
  have nothrow5: "\<And>tr' c. throws no_apply_page tr' c = None"
    by (simp add: no_apply_page_def fixture_def)
  have buttons5: "query_all no_apply_page times_history ''button'' = [h_toggle, h_add, h_apply]"
    by code_simp
  have texts5:
    "fst (getTextContent no_apply_page h_toggle times_history) = Inr []"
    "fst (getTextContent no_apply_page h_add times_history) = Inr (''A'' @ n_tilde_as_written @ ''adir'')"
    "fst (getTextContent no_apply_page h_apply times_history) = Inr ''Cancelar''"
    by code_simp+
  have words5:
    "\<not> str_includes (toLowerCase (trim [])) ''aplicar''"
    "\<not> str_includes (toLowerCase (trim (''A'' @ n_tilde_as_written @ ''adir''))) ''aplicar''"
    "\<not> str_includes (toLowerCase (trim ''Cancelar'')) ''aplicar''"
    by code_simp+
  have no_word5: "\<forall>b \<in> set (query_all no_apply_page times_history ''button''). \<forall>text.
            fst (getTextContent no_apply_page b times_history) = Inr text
              \<longrightarrow> \<not> str_includes (toLowerCase (trim text)) ''aplicar''"
    unfolding buttons5 using texts5 words5 by auto
  from lookups_exhausted [where env = no_apply_page and tr = "[]" and ?tr2.0 = times_history
      and entry = nine_to_five]
    filled5 none5 nothrow5 no_word5
  have e: \<open>findApplyButton no_apply_page times_history
       = (Inl (Error ''Could not find "Aplicar" button to submit the form''), times_history)
     \<and> fillFactorialPopup no_apply_page nine_to_five [] = (Inr False, times_history)\<close>
    by simp
  have none6: \<open>\<forall>s \<in> set (''input[type="time"]'' # ''input'' # startTimeSelectors @ endTimeSelectors).
          query_all no_inputs_page [] s = []\<close>
    by code_simp
  have nothrow6: "\<And>tr' c. throws no_inputs_page tr' c = None"
    by (simp add: no_inputs_page_def fixture_def)
  from lookups_exhausted [where env = no_inputs_page and tr = "[]" and entry = nine_to_five]
    none6 nothrow6
  have f: "fillTimes no_inputs_page nine_to_five [] = (Inr (), [])"
    by simp
  from a b c d e f buttons4 buttons5 show ?thesis by simp
qed


subsection \<open>The log-custom command\<close>

lemma bad_date_run:
  "logCustom rejected_login_page credentials bad_date_options []
     = (Inr 1, rejected_login_history @ [NewPage, NewContext, Launch])"
  by code_simp

text \<open>
  Claim C6 as stated fails. With the credentials configured and the date \<open>31/12/2024\<close>,
  the command launches the browser, opens a page, and types the credentials into the
  login form; it exits with code 1 only because that login is rejected.
\<close>

theorem bad_date_opens_browser:
  "opt_date bad_date_options = ''31/12/2024''
   \<and> logCustom rejected_login_page credentials bad_date_options []
     = (Inr 1, rejected_login_history @ [NewPage, NewContext, Launch])"
  using bad_date_run by (simp add: bad_date_options_def)

lemma fillTimes_times_only:
  assumes "startTime e = startTime e'" and "endTime e = endTime e'"
  shows "fillTimes env e = fillTimes env e'"
proof -
  have "fillStartEnd env e = fillStartEnd env e'"
    using assms by (intro ext) (simp add: fillStartEnd_def)
  with assms show ?thesis by (simp add: fillTimes_def cong: list.case_cong)
qed

lemma logWorkHours_times_only:
  assumes "startTime e = startTime e'" and "endTime e = endTime e'"
  shows "logWorkHours env e = logWorkHours env e'"
proof -
  have "fillFactorialPopup env e = fillFactorialPopup env e'"
    by (simp add: fillFactorialPopup_def fillTimes_times_only [OF assms])
  then have "handleFactorialTimeEntry_try env e = handleFactorialTimeEntry_try env e'"
    by (simp add: handleFactorialTimeEntry_try_def cong: option.case_cong if_cong)
  then have "handleFactorialTimeEntry env e = handleFactorialTimeEntry env e'"
    by (simp add: handleFactorialTimeEntry_def)
  then show ?thesis by (simp add: logWorkHours_def)
qed

text \<open>
  Claim C6, amended. The validation of the log-custom command looks at the configuration
  only: when \<open>FACTORIAL_EMAIL\<close> or \<open>FACTORIAL_PASSWORD\<close> is missing, the command exits with
  code 1 before it has done anything to a browser, whatever the date argument is. The
  date argument is not validated, and what the command does is the same for every date.
\<close>

theorem logCustom_validation:
  "(factorial_email cfg = [] \<or> factorial_password cfg = [] \<longrightarrow>
      logCustom env cfg options tr = (Inr 1, tr))
   \<and> logCustom env cfg (options\<lparr>opt_date := d\<rparr>) tr = logCustom env cfg options tr"
proof (intro conjI impI)
  assume "factorial_email cfg = [] \<or> factorial_password cfg = []"
  then have "validateConfig cfg tr
               = (Inl (Error (''Configuration errors:'' @ [CHR 0x0A] @ join [CHR 0x0A]
                   ((if factorial_email cfg = [] then [''FACTORIAL_EMAIL is required''] else [])
                    @ (if factorial_password cfg = [] then [''FACTORIAL_PASSWORD is required''] else [])))), tr)"
    by (auto simp: validateConfig_def io_throw_def)
  then show "logCustom env cfg options tr = (Inr 1, tr)"
    by (simp add: logCustom_def io_catch_def io_then_def io_bind_def io_return_def)
next
  have "logWorkHours env (customEntry (options\<lparr>opt_date := d\<rparr>))
          = logWorkHours env (customEntry options)"
    by (rule logWorkHours_times_only) (simp_all add: customEntry_def)
  then show "logCustom env cfg (options\<lparr>opt_date := d\<rparr>) tr = logCustom env cfg options tr"
    by (simp add: logCustom_def cong: if_cong)
qed

theorem logCustom_validation_witness:
  "logCustom empty_page (credentials\<lparr>factorial_password := []\<rparr>) bad_date_options [] = (Inr 1, [])
   \<and> logCustom rejected_login_page credentials (bad_date_options\<lparr>opt_date := ''2024-12-31''\<rparr>) []
       = (Inr 1, rejected_login_history @ [NewPage, NewContext, Launch])"
proof -
  have "factorial_password (credentials\<lparr>factorial_password := []\<rparr>) = []" by simp
  with logCustom_validation [of "credentials\<lparr>factorial_password := []\<rparr>" empty_page bad_date_options "[]"]
  have a: "logCustom empty_page (credentials\<lparr>factorial_password := []\<rparr>) bad_date_options [] = (Inr 1, [])"
    by blast
  from bad_date_run
    logCustom_validation [of credentials rejected_login_page bad_date_options "[]" "''2024-12-31''"]
  have b: "logCustom rejected_login_page credentials (bad_date_options\<lparr>opt_date := ''2024-12-31''\<rparr>) []
       = (Inr 1, rejected_login_history @ [NewPage, NewContext, Launch])"
    by simp
  from a b show ?thesis by simp
qed

subsection \<open>The error of a failed login\<close>

lemma io_catch_unit_readonly:
  assumes "readonly m"
  shows "io_catch m (\<lambda>e. io_return ()) tr = (Inr (), tr)"
proof -
  from readonly_result [OF assms, of tr] show ?thesis
    by (cases "fst (m tr)") (simp_all add: io_catch_def io_return_def)
qed

lemma readonly_reportLoginError: "readonly (reportLoginError env selector)"
  by (auto simp: reportLoginError_def split: option.split)

lemma checkLoginErrors_swallows: "checkLoginErrors env selectors tr = (Inr (), tr)"
proof (induction selectors)
  case Nil
  then show ?case by (simp add: io_return_def)
next
  case (Cons s rest)
  then show ?case
    by (simp add: io_then_def io_bind_def io_catch_unit_readonly [OF readonly_reportLoginError])
qed

lemma rejected_login_run:
  "login rejected_login_page credentials initialized []
     = (Inl (Error ''Login failed - please check credentials''), rejected_login_history)"
  by code_simp

text \<open>
  Claim C7 against the code. On every page the loop over the error selectors ends
  without throwing, because the \<open>throw\<close> that carries the error text is caught by the
  \<open>catch\<close> of its own \<open>try\<close>; what \<open>login\<close> throws after it is always the fixed message.
  On the page below the login is rejected and \<open>.error-message\<close> shows "Invalid email or
  password": \<open>login\<close> throws "Login failed - please check credentials", which carries
  none of that text.
\<close>

theorem login_error_text_lost:
  "io_then (checkLoginErrors env errorSelectors)
      (io_throw (Error ''Login failed - please check credentials'')) tr
     = (Inl (Error ''Login failed - please check credentials''), tr)
   \<and> login rejected_login_page credentials initialized []
     = (Inl (Error ''Login failed - please check credentials''), rejected_login_history)
   \<and> queryOne rejected_login_page ''.error-message'' rejected_login_history
     = (Inr (Some [3]), rejected_login_history)
   \<and> getTextContent rejected_login_page [3] rejected_login_history
     = (Inr ''Invalid email or password'', rejected_login_history)"
proof -
  have "queryOne rejected_login_page ''.error-message'' rejected_login_history
     = (Inr (Some [3]), rejected_login_history)"
    by code_simp
  moreover have "getTextContent rejected_login_page [3] rejected_login_history
     = (Inr ''Invalid email or password'', rejected_login_history)"
    by code_simp
  ultimately show ?thesis
    using rejected_login_run
    by (simp add: checkLoginErrors_swallows io_then_def io_bind_def io_throw_def)
qed

subsection \<open>Decimal digits\<close>

lemma of_char_digit_char: "d < 10 \<Longrightarrow> (of_char (digit_char d) :: nat) = 48 + d"
proof -
  assume "d < 10"
  then have "d \<in> {0, 1, 2, 3, 4, 5, 6, 7, 8, 9}" by auto
  then show ?thesis by (auto simp: digit_char_def)
qed

lemma is_digit_digit_char: "d < 10 \<Longrightarrow> is_digit (digit_char d)"
  by (simp add: is_digit_def of_char_digit_char)

lemma toString_nat_digits: "list_all is_digit (toString_nat n)"
proof (induction n rule: toString_nat.induct)
  case (1 n)
  show ?case
  proof (cases "n < 10")
    case True
    then show ?thesis by (subst toString_nat.simps) (simp add: is_digit_digit_char)
  next
    case False
    with 1 show ?thesis by (subst toString_nat.simps) (simp add: is_digit_digit_char)
  qed
qed

lemma decimal_value_snoc: "decimal_value (s @ [c]) = 10 * decimal_value s + (of_char c - 48)"
  by (simp add: decimal_value_def)

lemma decimal_value_toString: "decimal_value (toString_nat n) = n"
proof (induction n rule: toString_nat.induct)
  case (1 n)
  show ?case
  proof (cases "n < 10")
    case True
    then show ?thesis
      by (subst toString_nat.simps) (simp add: decimal_value_def of_char_digit_char)
  next
    case False
    with 1 show ?thesis
      by (subst toString_nat.simps) (simp add: decimal_value_snoc of_char_digit_char)
  qed
qed

lemma toString_nat_nonempty: "toString_nat n \<noteq> []"
  by (subst toString_nat.simps) simp

lemma toString_nat_no_leading_zero: "10 \<le> n \<Longrightarrow> hd (toString_nat n) \<noteq> CHR ''0''"
proof (induction n rule: toString_nat.induct)
  case (1 n)
  then have big: "\<not> n < 10" by simp
  show ?case
  proof (cases "n div 10 < 10")
    case True
    with big have "0 < n div 10" by simp
    then have "digit_char (n div 10) \<noteq> CHR ''0''"
      using True of_char_digit_char [of "n div 10"] by auto
    with big True show ?thesis
      by (subst toString_nat.simps, simp, subst toString_nat.simps, simp)
  next
    case False
    with 1 big have "hd (toString_nat (n div 10)) \<noteq> CHR ''0''" by simp
    with big show ?thesis
      by (subst toString_nat.simps) (simp add: toString_nat_nonempty)
  qed
qed

lemma toString_nat_length_small: "n < 100 \<Longrightarrow> length (toString_nat n) \<le> 2"
proof -
  assume small: "n < 100"
  show ?thesis
  proof (cases "n < 10")
    case True
    then show ?thesis by (subst toString_nat.simps) simp
  next
    case False
    from small have "n div 10 < 10" by simp
    then have "toString_nat (n div 10) = [digit_char (n div 10)]"
      by (subst toString_nat.simps) simp
    with False show ?thesis by (subst toString_nat.simps) simp
  qed
qed

lemma toString_nat_length_big: "10 \<le> n \<Longrightarrow> 2 \<le> length (toString_nat n)"
  by (subst toString_nat.simps) (simp add: Suc_le_eq toString_nat_nonempty)

lemma decimal_value_zeros: "decimal_value (replicate k (CHR ''0'') @ s) = decimal_value s"
  by (induction k) (simp_all add: decimal_value_def)

lemma padStart_value: "decimal_value (padStart k (CHR ''0'') (toString_nat n)) = n"
  by (simp add: padStart_def decimal_value_zeros decimal_value_toString)

lemma padStart_digits: "list_all is_digit (padStart k (CHR ''0'') (toString_nat n))"
  using toString_nat_digits [of n] by (auto simp: padStart_def list_all_iff is_digit_def)

lemma padStart_length: "k \<le> length (padStart k c s)"
  by (simp add: padStart_def)

lemma no_colon_digits: "list_all is_digit s \<Longrightarrow> CHR '':'' \<notin> set s"
  by (auto simp: list_all_iff is_digit_def)

subsection \<open>formatBreakTime\<close>

lemma bitlen_le: "n < 2 ^ k \<Longrightarrow> bitlen n \<le> k"
proof (induction n arbitrary: k rule: bitlen.induct)
  case (1 n)
  show ?case
  proof (cases "n = 0")
    case True
    then show ?thesis by (simp add: bitlen.simps)
  next
    case False
    with "1.prems" obtain j where k: "k = Suc j" by (cases k) auto
    with "1.prems" have "n div 2 < 2 ^ j" by auto
    with "1.IH" [OF False] have "bitlen (n div 2) \<le> j" by blast
    with False k show ?thesis by (simp add: bitlen.simps [of n])
  qed
qed

lemma bitlen_60: "bitlen 60 = 6"
  by (simp add: bitlen.simps)

lemma round_half_even_bounds:
  "a div b \<le> round_half_even a b"
  "round_half_even a b \<le> a div b + 1"
  "round_half_even a b = a div b + 1 \<Longrightarrow> b \<le> 2 * (a mod b)"
  by (auto simp: round_half_even_def Let_def split: if_splits)

lemma scaled_quotient:
  fixes a P :: nat
  assumes P: "32 \<le> P"
  shows "round_half_even (a * P) 60 div P = a div 60"
proof -
  define q r where "q = a div 60" and "r = a mod 60"
  define f m where "f = (a * P) div 60" and "m = (a * P) mod 60"
  define n where "n = round_half_even (a * P) 60"
  have a: "a = 60 * q + r" and r: "r < 60" by (simp_all add: q_def r_def)
  have N: "a * P = 60 * f + m" and m: "m < 60" by (simp_all add: f_def m_def)
  define X Y where "X = r * P" and "Y = q * P"
  have X: "X \<le> 59 * P" using r unfolding X_def by (intro mult_le_mono) simp_all
  have eq: "60 * f + m = 60 * Y + X"
    using N a by (simp add: X_def Y_def algebra_simps)
  have lo: "f \<le> n" and hi: "n \<le> f + 1" and up: "n = f + 1 \<Longrightarrow> 60 \<le> 2 * m"
    using round_half_even_bounds [of "a * P" 60] by (simp_all add: n_def f_def m_def)
  have "Y \<le> n" using eq m lo by arith
  moreover have "n < Y + P"
  proof (cases "n = f + 1")
    case True
    with up have "30 \<le> m" by simp
    with eq X P True show ?thesis by arith
  next
    case False
    with lo hi have "n = f" by simp
    with eq X P show ?thesis by arith
  qed
  ultimately have "n div P = q"
    unfolding Y_def using P by (intro div_nat_eqI) (simp_all add: mult.commute)
  then show ?thesis by (simp add: n_def q_def)
qed

lemma floor_quotient_exact:
  assumes "minutes < 2 ^ 53"
  shows "floor_quotient minutes 60 = minutes div 60"
proof (cases "minutes = 0")
  case True
  then show ?thesis by (simp add: floor_quotient_def)
next
  case False
  define e where "e = quotient_exponent minutes 60"
  from bitlen_le [OF assms] have "int (bitlen minutes) - int (bitlen 60) - 53 \<le> - 6"
    by (simp add: bitlen_60)
  then have e: "e \<le> - 5"
    unfolding e_def quotient_exponent_def Let_def by (simp split: if_splits)
  then have ne: "nat e = 0" by simp
  from e have "5 \<le> nat (- e)" by simp
  then have "(2::nat) ^ 5 \<le> 2 ^ nat (- e)" by (rule power_increasing) simp
  then have P: "32 \<le> (2::nat) ^ nat (- e)" by simp
  from False have "floor_quotient minutes 60
      = round_half_even (minutes * 2 ^ nat (- e)) 60 div 2 ^ nat (- e)"
    by (simp add: floor_quotient_def Let_def e_def [symmetric] ne)
  with scaled_quotient [OF P] show ?thesis by simp
qed

text \<open>
  Claim C8 as stated fails. \<open>72072000000000176\<close> is an integer a double holds exactly.
  Its quotient by 60 lies between \<open>1201200000000002.75\<close> and \<open>1201200000000003\<close>, the
  two doubles next to it, and nearer to the second, which is what the division gives:
  \<open>formatBreakTime\<close> prints one hour more than the integer quotient.
\<close>

theorem formatBreakTime_rounded_up:
  "is_double 72072000000000176
   \<and> formatBreakTime no_exponential 72072000000000176 = ''1201200000000003:56''
   \<and> (72072000000000176 :: nat) div 60 = 1201200000000002
   \<and> (72072000000000176 :: nat) mod 60 = 56"
proof -
  have "bitlen 72072000000000176 = 57" by (simp add: bitlen.simps)
  then have a: "is_double 72072000000000176" by (simp add: is_double_def)
  have h: "floor_quotient 72072000000000176 60 = 1201200000000003"
    by (simp add: floor_quotient_def quotient_exponent_def round_half_even_def Let_def bitlen.simps)
  have d: "toString_nat 1201200000000003 = ''1201200000000003''" "toString_nat 56 = ''56''"
    by (simp_all add: toString_nat.simps digit_char_def)
  have b: "formatBreakTime no_exponential 72072000000000176 = ''1201200000000003:56''"
    by (simp add: formatBreakTime_def h numberToString_def d padStart_def)
  from a b show ?thesis by simp
qed

text \<open>
  Claim C8, amended. For every non-negative integer number of minutes below \<open>2^53\<close>,
  \<open>formatBreakTime\<close> returns \<open>HH:MM\<close>: two runs of decimal digits around a colon, where
  \<open>HH\<close> reads as the minutes divided by 60 and \<open>MM\<close> as the minutes modulo 60, each
  padded with zeros to two digits and no further (\<open>MM\<close> has exactly two digits; \<open>HH\<close>
  has more only when the hours need them, and then no leading zero).
\<close>

theorem formatBreakTime_format:
  assumes safe: "minutes < 2 ^ 53"
  shows "\<exists>hh mm. formatBreakTime exponential minutes = hh @ '':'' @ mm
     \<and> list_all is_digit hh \<and> list_all is_digit mm
     \<and> 2 \<le> length hh \<and> length mm = 2
     \<and> decimal_value hh = minutes div 60 \<and> decimal_value mm = minutes mod 60
     \<and> (length hh = 2 \<or> hd hh \<noteq> CHR ''0'')"
proof -
  define hh where "hh = padStart 2 (CHR ''0'') (toString_nat (minutes div 60))"
  define mm where "mm = padStart 2 (CHR ''0'') (toString_nat (minutes mod 60))"
  from safe have "minutes div 60 < 10 ^ 21" by simp
  moreover have "minutes mod 60 < 10 ^ 21"
    by (rule less_trans [where y = 60]) simp_all
  ultimately have eq: "formatBreakTime exponential minutes = hh @ '':'' @ mm"
    by (simp add: formatBreakTime_def numberToString_def floor_quotient_exact [OF safe] hh_def mm_def)
  have dig: "list_all is_digit hh" "list_all is_digit mm"
    by (simp_all add: hh_def mm_def padStart_digits)
  have len_hh: "2 \<le> length hh" by (simp add: hh_def padStart_length)
  have "length (toString_nat (minutes mod 60)) \<le> 2"
    by (rule toString_nat_length_small) simp
  then have len_mm: "length mm = 2"
    by (auto simp: mm_def padStart_def)
  have val: "decimal_value hh = minutes div 60" "decimal_value mm = minutes mod 60"
    by (simp_all add: hh_def mm_def padStart_value)
  have lead: "length hh = 2 \<or> hd hh \<noteq> CHR ''0''"
  proof (cases "minutes div 60 < 100")
    case True
    then have "length (toString_nat (minutes div 60)) \<le> 2"
      by (rule toString_nat_length_small)
    then show ?thesis by (auto simp: hh_def padStart_def)
  next
    case False
    then have big: "10 \<le> minutes div 60" by simp
    then have "2 \<le> length (toString_nat (minutes div 60))"
      by (rule toString_nat_length_big)
    then have "hh = toString_nat (minutes div 60)" by (simp add: hh_def padStart_def)
    with toString_nat_no_leading_zero [OF big] show ?thesis by simp
  qed
  from eq dig len_hh len_mm val lead show ?thesis by blast
qed

theorem formatBreakTime_format_witness:
  "(6005 :: nat) < 2 ^ 53
   \<and> formatBreakTime no_exponential 6005 = ''100:05'' \<and> formatBreakTime no_exponential 75 = ''01:15''
   \<and> (\<exists>hh mm. formatBreakTime no_exponential 6005 = hh @ '':'' @ mm
     \<and> list_all is_digit hh \<and> list_all is_digit mm
     \<and> 2 \<le> length hh \<and> length mm = 2
     \<and> decimal_value hh = 6005 div 60 \<and> decimal_value mm = 6005 mod 60
     \<and> (length hh = 2 \<or> hd hh \<noteq> CHR ''0''))"
proof -
  have safe: "(6005 :: nat) < 2 ^ 53" by simp
  have q: "floor_quotient 6005 60 = 100" "floor_quotient 75 60 = 1"
    by (simp_all add: floor_quotient_def quotient_exponent_def round_half_even_def Let_def bitlen.simps)
  have "formatBreakTime no_exponential 6005 = ''100:05''"
    by (simp add: formatBreakTime_def q numberToString_def padStart_def toString_nat.simps digit_char_def)
  moreover have "formatBreakTime no_exponential 75 = ''01:15''"
    by (simp add: formatBreakTime_def q numberToString_def padStart_def toString_nat.simps digit_char_def)
  ultimately show ?thesis using formatBreakTime_format [OF safe, of no_exponential] safe by blast
qed


subsection \<open>The entries of the current week\<close>

lemma january_2024:
  "civil_from_days 19729 = (2024, 1, 7)" "civil_from_days 19730 = (2024, 1, 8)"
  "civil_from_days 19731 = (2024, 1, 9)" "civil_from_days 19732 = (2024, 1, 10)"
  "civil_from_days 19733 = (2024, 1, 11)" "civil_from_days 19734 = (2024, 1, 12)"
  by code_simp+

lemma january_2024_iso:
  "isoDate 19729 = ''2024-01-07''" "isoDate 19730 = ''2024-01-08''"
  "isoDate 19731 = ''2024-01-09''" "isoDate 19732 = ''2024-01-10''"
  "isoDate 19733 = ''2024-01-11''" "isoDate 19734 = ''2024-01-12''"
  unfolding isoDate_def january_2024 prod.case
  by (simp_all add: padStart_def toString_nat.simps digit_char_def)

lemma wednesday_fields: "getDay wednesday_0030 = 3" "getDate wednesday_0030 = 10"
  by (simp_all add: getDay_def getDate_def wednesday_0030_def january_2024)

lemma monday_0030:
  "setDate wednesday_0030 (getDate wednesday_0030 - getDay wednesday_0030
      + (if getDay wednesday_0030 = 0 then - 6 else 1)) = \<lparr>localDay = 19730, msOfDay = 1800000\<rparr>"
  unfolding wednesday_fields by (simp add: setDate_def wednesday_fields) (simp add: wednesday_0030_def)

lemma work_day:
  "toISODateString cet (setDate \<lparr>localDay = 19730, msOfDay = 1800000\<rparr>
      (getDate \<lparr>localDay = 19730, msOfDay = 1800000\<rparr> + i)) = isoDate (19729 + i)"
  by (simp add: toISODateString_def utcDay_def setDate_def cet_def add.commute)

lemma week_entry_dates:
  "map date (getCurrentWeekEntries cfg tz today)
     = map (\<lambda>i. toISODateString tz
              (setDate (setDate today (getDate today - getDay today + (if getDay today = 0 then - 6 else 1)))
                 (getDate (setDate today (getDate today - getDay today
                    + (if getDay today = 0 then - 6 else 1))) + i)))
         [0, 1, 2, 3, 4]"
  unfolding getCurrentWeekEntries_def Let_def by simp

text \<open>
  What holds on every call: five entries, each with the configured start time, end time
  and break, and a description made from its date. The Monday is right on the local
  calendar, and in UTC the five dates are that Monday to the Friday after it.
\<close>

lemma week_entries_shape:
  "length (getCurrentWeekEntries cfg tz today) = 5
   \<and> list_all (\<lambda>e. startTime e = workHours_defaultStartTime cfg
                 \<and> endTime e = workHours_defaultEndTime cfg
                 \<and> breakMinutes e = workHours_defaultBreakMinutes cfg
                 \<and> description e = Some (''Work day - '' @ date e))
        (getCurrentWeekEntries cfg tz today)"
  unfolding getCurrentWeekEntries_def Let_def by simp

lemma local_monday:
  "localDay (setDate today (getDate today - getDay today + (if getDay today = 0 then - 6 else 1)))
     = localDay today - (getDay today + 6) mod 7"
proof -
  have "0 \<le> getDay today" "getDay today < 7" by (simp_all add: getDay_def)
  then have "getDay today \<in> {0, 1, 2, 3, 4, 5, 6}" by auto
  then have "(getDay today + 6) mod 7 = (if getDay today = 0 then 6 else getDay today - 1)"
    by auto
  then show ?thesis by (simp add: setDate_def)
qed

lemma monday_is_monday: "(localDay today - (getDay today + 6) mod 7 + 4) mod 7 = 1"
  unfolding getDay_def by presburger

lemma whole_days: "0 \<le> r \<Longrightarrow> r < 86400000 \<Longrightarrow> (k * 86400000 + r) div 86400000 = (k :: int)"
  by simp

lemma week_entries_utc:
  assumes "\<And>d. tz d = 0" and "0 \<le> msOfDay today" and "msOfDay today < 86400000"
  shows "map date (getCurrentWeekEntries cfg tz today)
           = map (\<lambda>i. isoDate (localDay today - (getDay today + 6) mod 7 + i)) [0, 1, 2, 3, 4]"
proof -
  define monday where
    "monday = setDate today (getDate today - getDay today + (if getDay today = 0 then - 6 else 1))"
  have day: "localDay monday = localDay today - (getDay today + 6) mod 7"
    unfolding monday_def by (rule local_monday)
  have ms: "msOfDay monday = msOfDay today"
    unfolding monday_def by (simp add: setDate_def)
  have "toISODateString tz (setDate monday (getDate monday + i)) = isoDate (localDay monday + i)" for i
  proof -
    have "utcDay tz (setDate monday (getDate monday + i))
            = ((localDay monday + i) * 86400000 + msOfDay today) div 86400000"
      by (simp add: utcDay_def setDate_def assms(1) ms)
    also have "\<dots> = localDay monday + i"
      using assms(2,3) by (rule whole_days)
    finally show ?thesis by (simp add: toISODateString_def)
  qed
  then have "map date (getCurrentWeekEntries cfg tz today)
               = map (\<lambda>i. isoDate (localDay monday + i)) [0, 1, 2, 3, 4]"
    unfolding week_entry_dates monday_def [symmetric] by simp
  then show ?thesis unfolding day .
qed

text \<open>
  Claim C9 against the code. The Monday is computed on the local calendar, but each date
  string is cut from \<open>toISOString()\<close>, which is the date in UTC. In a time zone ahead of
  UTC the two differ early in the day: on Wednesday 10 January 2024 at 00:30 local time
  in Central European Time (\<open>getTimezoneOffset()\<close> is -60) the week's Monday to Friday are
  8 to 12 January, and the five entries are dated 7 to 11 January, Sunday to Thursday.
\<close>

theorem week_entries_shifted:
  "isoDate (localDay wednesday_0030) = ''2024-01-10'' \<and> getDay wednesday_0030 = 3
   \<and> map isoDate [19730, 19731, 19732, 19733, 19734]
       = [''2024-01-08'', ''2024-01-09'', ''2024-01-10'', ''2024-01-11'', ''2024-01-12'']
   \<and> map date (getCurrentWeekEntries credentials cet wednesday_0030)
       = [''2024-01-07'', ''2024-01-08'', ''2024-01-09'', ''2024-01-10'', ''2024-01-11'']"
proof -
  have "map date (getCurrentWeekEntries credentials cet wednesday_0030)
          = map (\<lambda>i. isoDate (19729 + i)) [0, 1, 2, 3, 4]"
    unfolding week_entry_dates monday_0030 work_day ..
  then show ?thesis
    by (simp add: january_2024_iso wednesday_fields) (simp add: wednesday_0030_def january_2024_iso)
qed

subsection \<open>The public methods never throw\<close>

lemma handleFactorialTimeEntry_returns: "\<exists>b tr'. handleFactorialTimeEntry env entry tr = (Inr b, tr')"
  unfolding handleFactorialTimeEntry_def by (rule io_catch_total)

lemma workflow_false_throws:
  assumes "handleFactorialTimeEntry env entry tr1 = (Inr False, tr2)"
  shows "io_catch
             (io_bind (handleFactorialTimeEntry env entry) (\<lambda>success.
                if \<not> success then io_throw (Error ''Factorial workflow failed'')
                else io_return success))
             (\<lambda>error. io_throw (Error ''Could not log work hours using Factorial workflow'')) tr1
         = (Inl (Error ''Could not log work hours using Factorial workflow''), tr2)"
  using assms by (simp add: io_catch_def io_bind_def io_throw_def)

lemma logWorkHours_false:
  assumes "fst (handleFactorialTimeEntry env entry
                    (snd (io_then (openAttendancePage env) (dismissPopups env) tr))) = Inr False"
  shows "fst (logWorkHours env entry tr) = Inr False"
proof -
  let ?inner = "io_catch
             (io_bind (handleFactorialTimeEntry env entry) (\<lambda>success.
                if \<not> success then io_throw (Error ''Factorial workflow failed'')
                else io_return success))
             (\<lambda>error. io_throw (Error ''Could not log work hours using Factorial workflow''))"
  let ?k = "io_bind ?inner (\<lambda>success. if success then io_return True else io_return False)"
  obtain r0 tr0 where o: "openAttendancePage env tr = (r0, tr0)"
    by (cases "openAttendancePage env tr")
  have body: "\<exists>e. fst (io_then (openAttendancePage env) (io_then (dismissPopups env) ?k) tr) = Inl e"
  proof (cases r0)
    case (Inl e)
    with o show ?thesis by (simp add: io_then_def io_bind_def)
  next
    case (Inr u)
    obtain r1 tr1 where d: "dismissPopups env tr0 = (r1, tr1)"
      by (cases "dismissPopups env tr0")
    show ?thesis
    proof (cases r1)
      case (Inl e)
      with o d Inr show ?thesis by (simp add: io_then_def io_bind_def)
    next
      case (Inr u')
      with o d \<open>r0 = Inr u\<close> have "snd (io_then (openAttendancePage env) (dismissPopups env) tr) = tr1"
        by (simp add: io_then_def io_bind_def)
      with assms obtain tr2 where "handleFactorialTimeEntry env entry tr1 = (Inr False, tr2)"
        by (cases "handleFactorialTimeEntry env entry tr1") simp
      from workflow_false_throws [OF this] o d Inr \<open>r0 = Inr u\<close> show ?thesis
        by (simp add: io_then_def io_bind_def)
    qed
  qed
  then obtain e where "fst (io_then (openAttendancePage env) (io_then (dismissPopups env) ?k) tr) = Inl e"
    by blast
  then show ?thesis
    unfolding logWorkHours_def by (rule io_catch_False_on_throw)
qed

text \<open>
  Claim C10. \<open>logWorkHours\<close> and \<open>logAnyMissingHours\<close> return a boolean for every page,
  entry and history: no error reaches the caller. A navigation error gives \<open>false\<close> from
  both; an error inside the workflow gives \<open>false\<close> from \<open>handleFactorialTimeEntry\<close>; an
  error while filling or submitting the popup gives \<open>false\<close> from \<open>fillFactorialPopup\<close>;
  and a workflow that returned \<open>false\<close> gives \<open>false\<close> from \<open>logWorkHours\<close>.
\<close>

theorem never_throws:
  "(\<exists>b tr'. logWorkHours env entry tr = (Inr b, tr'))
   \<and> (\<exists>b tr'. logAnyMissingHours env cfg tz now tr = (Inr b, tr'))
   \<and> (fst (openAttendancePage env tr) = Inl e1 \<longrightarrow>
        fst (logWorkHours env entry tr) = Inr False
        \<and> fst (logAnyMissingHours env cfg tz now tr) = Inr False)
   \<and> (fst (handleFactorialTimeEntry_try env entry tr) = Inl e2 \<longrightarrow>
        fst (handleFactorialTimeEntry env entry tr) = Inr False)
   \<and> (fst (io_then (setWorkType env) (io_then (fillTimes env entry) (submitPopup env)) tr) = Inl e3 \<longrightarrow>
        fst (fillFactorialPopup env entry tr) = Inr False)
   \<and> (fst (handleFactorialTimeEntry env entry
              (snd (io_then (openAttendancePage env) (dismissPopups env) tr))) = Inr False \<longrightarrow>
        fst (logWorkHours env entry tr) = Inr False)"
proof (intro conjI impI)
  show "\<exists>b tr'. logWorkHours env entry tr = (Inr b, tr')"
    unfolding logWorkHours_def by (rule io_catch_total)
  show "\<exists>b tr'. logAnyMissingHours env cfg tz now tr = (Inr b, tr')"
    unfolding logAnyMissingHours_def by (rule io_catch_total)
next
  assume nav: "fst (openAttendancePage env tr) = Inl e1"
  show "fst (logWorkHours env entry tr) = Inr False"
    unfolding logWorkHours_def
    by (rule io_catch_False_on_throw, rule io_then_throws [where m = "openAttendancePage env"], rule nav)
next
  assume nav: "fst (openAttendancePage env tr) = Inl e1"
  show "fst (logAnyMissingHours env cfg tz now tr) = Inr False"
    unfolding logAnyMissingHours_def Let_def
    by (rule io_catch_False_on_throw, rule io_then_throws [where m = "openAttendancePage env"], rule nav)
next
  assume "fst (handleFactorialTimeEntry_try env entry tr) = Inl e2"
  then show "fst (handleFactorialTimeEntry env entry tr) = Inr False"
    unfolding handleFactorialTimeEntry_def by (rule io_catch_False_on_throw)
next
  assume "fst (io_then (setWorkType env) (io_then (fillTimes env entry) (submitPopup env)) tr) = Inl e3"
  then show "fst (fillFactorialPopup env entry tr) = Inr False"
    unfolding fillFactorialPopup_def by (rule io_catch_False_on_throw)
next
  assume "fst (handleFactorialTimeEntry env entry
              (snd (io_then (openAttendancePage env) (dismissPopups env) tr))) = Inr False"
  then show "fst (logWorkHours env entry tr) = Inr False"
    by (rule logWorkHours_false)
qed

theorem never_throws_witness:
  "fst (openAttendancePage broken_browser []) = Inl (Error ''Target page, context or browser has been closed'')
   \<and> fst (handleFactorialTimeEntry_try broken_browser nine_to_five [])
       = Inl (Error ''Target page, context or browser has been closed'')
   \<and> fst (io_then (setWorkType broken_browser)
          (io_then (fillTimes broken_browser nine_to_five) (submitPopup broken_browser)) [])
       = Inl (Error ''Target page, context or browser has been closed'')
   \<and> fst (logWorkHours broken_browser nine_to_five []) = Inr False
   \<and> fst (logAnyMissingHours broken_browser credentials (\<lambda>d. 0) \<lparr>localDay = 19732, msOfDay = 0\<rparr> [])
       = Inr False
   \<and> fst (handleFactorialTimeEntry broken_browser nine_to_five []) = Inr False
   \<and> fst (fillFactorialPopup broken_browser nine_to_five []) = Inr False"
proof -
  have a: "fst (openAttendancePage broken_browser [])
             = Inl (Error ''Target page, context or browser has been closed'')"
    by code_simp
  have b: "fst (handleFactorialTimeEntry_try broken_browser nine_to_five [])
             = Inl (Error ''Target page, context or browser has been closed'')"
    by code_simp
  have c: "fst (io_then (setWorkType broken_browser)
          (io_then (fillTimes broken_browser nine_to_five) (submitPopup broken_browser)) [])
       = Inl (Error ''Target page, context or browser has been closed'')"
    by code_simp
  from a b c
    never_throws [of broken_browser nine_to_five "[]" credentials "\<lambda>d. 0"
      "\<lparr>localDay = 19732, msOfDay = 0\<rparr>"
      "Error ''Target page, context or browser has been closed''"
      "Error ''Target page, context or browser has been closed''"
      "Error ''Target page, context or browser has been closed''"]
  show ?thesis by blast
qed

end
